theory Spec2Isabelle
  imports Complex_Main
begin

section \<open>The download supervisor of \<open>PythonBridge/robust_download.py\<close>\<close>

text \<open>
  The script has four functions: \<open>get_model_size_gb\<close>, \<open>monitor_download_progress\<close>,
  \<open>download_model_robust\<close> and \<open>main\<close>. Everything they do beyond computing a value is a call
  into the operating system (printing, sleeping, creating a directory, starting a thread,
  spawning and polling a subprocess, reading the clock, walking the cache directories).
  The embedding makes these explicit:
  \<^item> what a function does to the outside is a list of \<open>action\<close>s, in program order;
  \<^item> what the outside answers (clock readings, poll results, directory contents, raised
    exceptions) is an argument of the function;
  \<^item> a Python exception is a value \<open>Exn msg\<close>, where \<open>msg\<close> is what \<open>str(e)\<close> returns.

  Python floats are modelled by exact rationals: \<open>4.2\<close> is \<open>21/5\<close>, and division, \<open>min\<close> and
  the comparisons are the exact ones. Clock readings are rationals (seconds).

  The calls that may raise are the ones into the file system, the thread library and the
  subprocess: \<open>mkdir\<close> (with \<open>Path.home()\<close>), \<open>Thread.start\<close>, \<open>Popen\<close>, \<open>poll\<close>,
  \<open>terminate\<close>, \<open>communicate\<close>, and in the monitor \<open>exists\<close> and \<open>stat\<close>. Printing,
  sleeping, reading the clock and copying the environment are taken to return normally. An
  \<open>exn\<close> is an instance of \<open>Exception\<close>, which is what both handlers catch.
\<close>

subsection \<open>Exceptions and actions\<close>

datatype exn = Exn string

fun str :: "exn \<Rightarrow> string" where
  "str (Exn msg) = msg"

datatype action =
    Print string
  | Sleep nat
  | Mkdir string
  | Start_monitor string string
  | Spawn "string list"
  | Terminate
  | Communicate

subsection \<open>Formatting numbers as Python does\<close>

definition digit_char :: "nat \<Rightarrow> char" where
  "digit_char d = ''0123456789'' ! d"

fun show_nat :: "nat \<Rightarrow> string" where
  "show_nat n = (if n < 10 then [digit_char n] else show_nat (n div 10) @ [digit_char (n mod 10)])"

declare show_nat.simps [simp del]

definition show_int :: "int \<Rightarrow> string" where
  "show_int i = (if i < 0 then ''-'' @ show_nat (nat (- i)) else show_nat (nat i))"

text \<open>Rounding to the nearest integer, ties to even, as the format specifier \<open>.2f\<close> rounds.\<close>

definition round_half_even :: "rat \<Rightarrow> int" where
  "round_half_even x =
     (let f = \<lfloor>x\<rfloor>; d = x - of_int f
      in if d < 1 / 2 then f else if 1 / 2 < d then f + 1 else if even f then f else f + 1)"

text \<open>\<open>f"{x:.2f}"\<close>: sign, integer part, a point and two decimals.\<close>

definition format_2f :: "rat \<Rightarrow> string" where
  "format_2f x =
     (let h = nat (round_half_even (\<bar>x\<bar> * 100))
      in (if x < 0 then ''-'' else '''') @ show_nat (h div 100) @ ''.'' @
         [digit_char (h mod 100 div 10), digit_char (h mod 10)])"

text \<open>\<open>sep.join(parts)\<close>\<close>

fun join :: "string \<Rightarrow> string list \<Rightarrow> string" where
  "join sep [] = []"
| "join sep [p] = p"
| "join sep (p # q # ps) = p @ sep @ join sep (q # ps)"

text \<open>\<open>str(base / name)\<close> for a relative \<open>name\<close> without separators.\<close>

definition path_join :: "string \<Rightarrow> string \<Rightarrow> string" where
  "path_join base name = (if base \<noteq> [] \<and> last base = CHR ''/'' then base @ name else base @ ''/'' @ name)"

subsection \<open>\<open>get_model_size_gb\<close>\<close>

definition model_sizes :: "string \<rightharpoonup> rat" where
  "model_sizes = [''schnell'' \<mapsto> 157 / 5, ''dev'' \<mapsto> 21 / 5]"

definition get_model_size_gb :: "string \<Rightarrow> rat" where
  "get_model_size_gb model_name =
     (case model_sizes model_name of Some size_gb \<Rightarrow> size_gb | None \<Rightarrow> 21 / 10)"

text \<open>Lines 24 and 25 of the monitor: the size in bytes that scales the progress fraction.\<close>

definition expected_size_bytes :: "string \<Rightarrow> rat" where
  "expected_size_bytes model_name = get_model_size_gb model_name * 1024 * 1024 * 1024"

subsection \<open>\<open>monitor_download_progress\<close>\<close>

text \<open>
  One sample of the file system, as one iteration of the monitor sees it: the candidate cache
  directories in the order of \<open>cache_dirs\<close>, each absent, present with the files that
  \<open>os.walk\<close> lists, or failing the \<open>exists()\<close> probe. A listed file has vanished
  (\<open>file_path.exists()\<close> is false), has a size, or \<open>exists()\<close>/\<open>stat()\<close> raises.
\<close>

datatype file_entry = Vanished | Size nat | Stat_fails exn

datatype cache_state = Absent | Tree "file_entry list" | Probe_fails exn

fun add_files :: "nat \<Rightarrow> file_entry list \<Rightarrow> exn + nat" where
  "add_files total_size [] = Inr total_size"
| "add_files total_size (Vanished # files) = add_files total_size files"
| "add_files total_size (Size n # files) = add_files (total_size + n) files"
| "add_files total_size (Stat_fails e # files) = Inl e"

fun add_dirs :: "nat \<Rightarrow> cache_state list \<Rightarrow> exn + nat" where
  "add_dirs total_size [] = Inr total_size"
| "add_dirs total_size (Absent # cache_dirs) = add_dirs total_size cache_dirs"
| "add_dirs total_size (Probe_fails e # cache_dirs) = Inl e"
| "add_dirs total_size (Tree files # cache_dirs) =
     (case add_files total_size files of
        Inl e \<Rightarrow> Inl e
      | Inr total_size' \<Rightarrow> add_dirs total_size' cache_dirs)"

text \<open>Line 47: \<open>min(total_size / expected_size_bytes, 0.95)\<close>.\<close>

definition fraction :: "rat \<Rightarrow> nat \<Rightarrow> rat" where
  "fraction expected total_size = min (of_nat total_size / expected) (19 / 20)"

text \<open>
  What one iteration of the \<open>while True\<close> loop does: it emits a progress event carrying a
  fraction, stays silent, or reports a sampling error.
\<close>

datatype tick = Emit rat | Silent | Sampling_error exn

definition monitor_iteration :: "rat \<Rightarrow> rat \<Rightarrow> cache_state list \<Rightarrow> rat \<times> tick" where
  "monitor_iteration expected last_progress cache_dirs =
     (case add_dirs 0 cache_dirs of
        Inl e \<Rightarrow> (last_progress, Sampling_error e)
      | Inr total_size \<Rightarrow>
          if 0 < total_size then
            let progress = fraction expected total_size
            in if last_progress < progress then (progress, Emit progress)
               else (last_progress, Silent)
          else (last_progress, Silent))"

fun tick_actions :: "tick \<Rightarrow> action list" where
  "tick_actions (Emit progress) = [Print (''PROGRESS: '' @ format_2f progress), Sleep 2]"
| "tick_actions Silent = [Sleep 2]"
| "tick_actions (Sampling_error e) = [Print (''PROGRESS_MONITOR_ERROR: '' @ str e), Sleep 5]"

text \<open>
  The loop never returns; its behaviour is the function from the samples taken so far to the
  ticks produced so far.
\<close>

fun monitor_loop :: "rat \<Rightarrow> rat \<Rightarrow> cache_state list list \<Rightarrow> tick list" where
  "monitor_loop expected last_progress [] = []"
| "monitor_loop expected last_progress (cache_dirs # samples) =
     (case monitor_iteration expected last_progress cache_dirs of
        (last_progress', t) \<Rightarrow> t # monitor_loop expected last_progress' samples)"

definition monitor_download_progress :: "string \<Rightarrow> cache_state list list \<Rightarrow> tick list" where
  "monitor_download_progress model_name samples =
     monitor_loop (expected_size_bytes model_name) 0 samples"

fun emitted :: "tick list \<Rightarrow> rat list" where
  "emitted [] = []"
| "emitted (Emit progress # ts) = progress # emitted ts"
| "emitted (t # ts) = emitted ts"

definition monitor_actions :: "string \<Rightarrow> cache_state list list \<Rightarrow> action list" where
  "monitor_actions model_name samples =
     concat (map tick_actions (monitor_download_progress model_name samples))"

subsection \<open>\<open>download_model_robust\<close>\<close>

text \<open>
  One observation of the polling loop: \<open>process.poll()\<close> raises, returns a return code, or
  returns \<open>None\<close>, in which case the loop reads the clock and \<open>Running now\<close> carries the reading.
\<close>

datatype observation = Running rat | Exited int | Poll_fails exn

text \<open>
  What the outside answers during one run of the supervisor. \<open>None\<close> in a \<open>_raises\<close> field
  means that the call returns normally.
\<close>

record world =
  home :: string
  mkdir_raises :: "exn option"
  thread_raises :: "exn option"
  popen_raises :: "exn option"
  start_time :: rat
  observations :: "observation list"
  terminate_raises :: "exn option"
  communicate_result :: "exn + string \<times> string"

definition model_mapping :: "string \<rightharpoonup> string" where
  "model_mapping =
     [''schnell'' \<mapsto> ''black-forest-labs/FLUX.1-schnell'',
      ''dev'' \<mapsto> ''black-forest-labs/FLUX.1-dev'']"

definition timeout :: rat where
  "timeout = 7200"

datatype wait_result = Timed_out | Returned int | Poll_raised exn

text \<open>
  Lines 123 to 129. The loop may run forever; the observations are its fuel, and a loop that
  is still polling when they end has not returned (\<open>None\<close>).
\<close>

fun wait_for_process :: "rat \<Rightarrow> observation list \<Rightarrow> (action list \<times> wait_result) option" where
  "wait_for_process t0 [] = None"
| "wait_for_process t0 (Poll_fails e # obs) = Some ([], Poll_raised e)"
| "wait_for_process t0 (Exited returncode # obs) = Some ([], Returned returncode)"
| "wait_for_process t0 (Running now # obs) =
     (if timeout < now - t0 then Some ([], Timed_out)
      else case wait_for_process t0 obs of
             None \<Rightarrow> None
           | Some (acts, r) \<Rightarrow> Some (Sleep 5 # acts, r))"

definition cache_dir_of :: "world \<Rightarrow> string" where
  "cache_dir_of w = path_join (path_join (home w) ''.cache'') ''mflux''"

definition cmd_of :: "world \<Rightarrow> string \<Rightarrow> string \<Rightarrow> string list" where
  "cmd_of w model_name huggingface_model =
     [''huggingface-cli'', ''download'', huggingface_model,
      ''--local-dir'', path_join (cache_dir_of w) model_name,
      ''--local-dir-use-symlinks'', ''False'',
      ''--resume-download'',
      ''--quiet'']"

text \<open>
  The body of the \<open>try\<close> block: the actions it performs, and either the exception that ends
  it (\<open>Inl\<close>) or the value it returns (\<open>Inr\<close>).
\<close>

definition download_body :: "string \<Rightarrow> world \<Rightarrow> (action list \<times> (exn + bool)) option" where
  "download_body model_name w =
     (let a0 = [Print ''DOWNLOAD_START'',
                Print (''Downloading model: '' @ model_name),
                Mkdir (cache_dir_of w)]
      in case mkdir_raises w of
           Some e \<Rightarrow> Some (a0, Inl e)
         | None \<Rightarrow>
      (case (case model_mapping model_name of
               None \<Rightarrow> None
             | Some hm \<Rightarrow> if hm = [] then None else Some hm) of
           None \<Rightarrow> Some (a0 @ [Print (''DOWNLOAD_ERROR: Unknown model '' @ model_name)], Inr False)
         | Some huggingface_model \<Rightarrow>
      (let a1 = a0 @ [Print ''PROGRESS: 0.05'',
                      Print ''Starting robust download with huggingface-cli...'',
                      Start_monitor model_name (cache_dir_of w)]
       in case thread_raises w of
            Some e \<Rightarrow> Some (a1, Inl e)
          | None \<Rightarrow>
      (let cmd = cmd_of w model_name huggingface_model;
           a2 = a1 @ [Print ''PROGRESS: 0.1'',
                      Print ''Initializing download...'',
                      Print ''PROGRESS: 0.2'',
                      Print ''Executing download command...'',
                      Print (''Command: '' @ join '' '' cmd),
                      Spawn cmd]
       in case popen_raises w of
            Some e \<Rightarrow> Some (a2, Inl e)
          | None \<Rightarrow>
      (case wait_for_process (start_time w) (observations w) of
         None \<Rightarrow> None
       | Some (sleeps, Poll_raised e) \<Rightarrow> Some (a2 @ sleeps, Inl e)
       | Some (sleeps, Timed_out) \<Rightarrow>
           (let a3 = a2 @ sleeps @
                     [Print ''DOWNLOAD_ERROR: Download timed out after 2 hours'', Terminate]
            in case terminate_raises w of
                 Some e \<Rightarrow> Some (a3, Inl e)
               | None \<Rightarrow> Some (a3, Inr False))
       | Some (sleeps, Returned returncode) \<Rightarrow>
           if returncode = 0 then
             Some (a2 @ sleeps @ [Print ''PROGRESS: 1.0'', Print ''DOWNLOAD_COMPLETE''], Inr True)
           else
             (case communicate_result w of
                Inl e \<Rightarrow> Some (a2 @ sleeps @ [Communicate], Inl e)
              | Inr (stdout, stderr) \<Rightarrow>
                  Some (a2 @ sleeps @
                        [Communicate,
                         Print (''DOWNLOAD_ERROR: Download failed with return code '' @
                                show_int returncode),
                         Print (''STDOUT: '' @ stdout),
                         Print (''STDERR: '' @ stderr)], Inr False)))))))"

text \<open>The \<open>except Exception\<close> handler of lines 143 to 145.\<close>

fun handler :: "action list \<times> (exn + bool) \<Rightarrow> bool \<times> action list" where
  "handler (acts, Inl e) = (False, acts @ [Print (''DOWNLOAD_ERROR: '' @ str e)])"
| "handler (acts, Inr success) = (success, acts)"

definition download_model_robust :: "string \<Rightarrow> world \<Rightarrow> (bool \<times> action list) option" where
  "download_model_robust model_name w = map_option handler (download_body model_name w)"

subsection \<open>\<open>main\<close>\<close>

text \<open>\<open>argv\<close> is \<open>sys.argv\<close>: the script name followed by the positional arguments.\<close>

definition main :: "string list \<Rightarrow> world \<Rightarrow> (nat \<times> action list) option" where
  "main argv w =
     (if length argv \<noteq> 2 then
        Some (1, [Print ''Usage: python robust_download.py <model_name>''])
      else case download_model_robust (argv ! 1) w of
             None \<Rightarrow> None
           | Some (success, acts) \<Rightarrow> Some (if \<not> success then 1 else 0, acts))"

subsection \<open>Reading the token stream\<close>

fun starts_with :: "string \<Rightarrow> string \<Rightarrow> bool" where
  "starts_with [] l = True"
| "starts_with (p # ps) [] = False"
| "starts_with (p # ps) (c # cs) = (p = c \<and> starts_with ps cs)"

text \<open>
  The arguments of the \<open>print\<close> calls of a run, in order. Each call writes its argument
  and a newline, so an argument with embedded newlines puts several lines on the stream:
  \<open>split_lines\<close> is \<open>str.split("\\n")\<close>, \<open>lines_of\<close> the lines a line-oriented consumer
  reads, \<open>first_lines\<close> the first line of each call and \<open>continuation_lines\<close> the lines
  that the embedded newlines of its argument add.
\<close>

fun printed :: "action list \<Rightarrow> string list" where
  "printed [] = []"
| "printed (Print l # acts) = l # printed acts"
| "printed (a # acts) = printed acts"

fun split_lines :: "string \<Rightarrow> string list" where
  "split_lines [] = [[]]"
| "split_lines (c # cs) =
     (if c = CHR 0x0A then [] # split_lines cs
      else case split_lines cs of
             [] \<Rightarrow> [[c]]
           | l # ls \<Rightarrow> (c # l) # ls)"

declare split_lines.simps(2) [simp del]

definition lines_of :: "action list \<Rightarrow> string list" where
  "lines_of acts = concat (map split_lines (printed acts))"

definition first_lines :: "action list \<Rightarrow> string list" where
  "first_lines acts = map (\<lambda>p. hd (split_lines p)) (printed acts)"

definition continuation_lines :: "action list \<Rightarrow> string list" where
  "continuation_lines acts = concat (map (\<lambda>p. tl (split_lines p)) (printed acts))"

definition is_terminal :: "string \<Rightarrow> bool" where
  "is_terminal l = (l = ''DOWNLOAD_COMPLETE'' \<or> starts_with ''DOWNLOAD_ERROR:'' l)"



fun is_spawn :: "action \<Rightarrow> bool" where
  "is_spawn (Spawn cmd) = True"
| "is_spawn a = False"

fun is_start_monitor :: "action \<Rightarrow> bool" where
  "is_start_monitor (Start_monitor model_name cache_dir) = True"
| "is_start_monitor a = False"

text \<open>
  A consumer of the stream reads the fraction of a line \<open>PROGRESS: <decimal>\<close> as a
  decimal numeral: digits, optionally a point and more digits.
\<close>

definition digit_val :: "char \<Rightarrow> nat option" where
  "digit_val c = map_of (zip ''0123456789'' [0, 1, 2, 3, 4, 5, 6, 7, 8, 9]) c"

fun digits_val :: "nat \<Rightarrow> string \<Rightarrow> nat option" where
  "digits_val acc [] = Some acc"
| "digits_val acc (c # cs) =
     (case digit_val c of None \<Rightarrow> None | Some d \<Rightarrow> digits_val (10 * acc + d) cs)"

definition parse_decimal :: "string \<Rightarrow> rat option" where
  "parse_decimal s =
     (let ip = takeWhile (\<lambda>c. c \<noteq> CHR ''.'') s;
          rest = dropWhile (\<lambda>c. c \<noteq> CHR ''.'') s
      in if ip = [] then None
         else case rest of
                [] \<Rightarrow> map_option of_nat (digits_val 0 ip)
              | dot # fp \<Rightarrow>
                  (case (digits_val 0 ip, digits_val 0 fp) of
                     (Some i, Some f) \<Rightarrow> Some (of_nat i + of_nat f / 10 ^ length fp)
                   | _ \<Rightarrow> None))"

definition read_progress :: "string \<Rightarrow> rat option" where
  "read_progress l =
     (if starts_with ''PROGRESS: '' l then parse_decimal (drop 10 l) else None)"

definition progress_readings :: "string list \<Rightarrow> rat list" where
  "progress_readings ls = List.map_filter read_progress ls"

text \<open>
  What a fraction printed with two decimals reads back as, and the reading of a decimal
  integer with an optional sign, as the return code is printed.
\<close>

definition two_decimals :: "rat \<Rightarrow> rat" where
  "two_decimals x = of_int (round_half_even (x * 100)) / 100"

definition read_int :: "string \<Rightarrow> int option" where
  "read_int s =
     (case s of
        [] \<Rightarrow> None
      | c # ds \<Rightarrow>
          if c = CHR ''-'' then map_option (\<lambda>n. - int n) (digits_val 0 ds)
          else map_option int (digits_val 0 s))"

subsection \<open>The two threads of one job\<close>

text \<open>
  The monitor is a daemon thread started by \<open>progress_thread.start()\<close>: from then on its
  actions interleave with the supervisor's, and it dies with the process. A schedule says which
  thread acts next (\<open>True\<close>: the supervisor); once the supervisor has no action left and is
  scheduled, the process exits.
\<close>

fun weave :: "bool list \<Rightarrow> 'a list \<Rightarrow> 'a list \<Rightarrow> 'a list" where
  "weave [] xs ys = xs"
| "weave (True # sched) [] ys = []"
| "weave (True # sched) (x # xs) ys = x # weave sched xs ys"
| "weave (False # sched) xs [] = weave sched xs []"
| "weave (False # sched) xs (y # ys) = y # weave sched xs ys"

fun job_stream :: "bool list \<Rightarrow> action list \<Rightarrow> action list \<Rightarrow> action list" where
  "job_stream sched [] mon = []"
| "job_stream sched (a # acts) mon =
     (if is_start_monitor a then a # weave sched acts mon else a # job_stream sched acts mon)"

subsection \<open>Names for the stages of a run\<close>

text \<open>
  The actions of \<open>download_model_robust\<close> up to the directory creation, up to the start of the
  monitor thread, and up to the spawn of the subprocess; \<open>spawned\<close> says that the run reaches
  the polling loop; \<open>within_ceiling\<close> that an observation finds the subprocess running with the
  elapsed time not above the ceiling.
\<close>

definition actions_to_mkdir :: "string \<Rightarrow> world \<Rightarrow> action list" where
  "actions_to_mkdir model_name w =
     [Print ''DOWNLOAD_START'',
      Print (''Downloading model: '' @ model_name),
      Mkdir (cache_dir_of w)]"

definition actions_to_thread :: "string \<Rightarrow> world \<Rightarrow> action list" where
  "actions_to_thread model_name w =
     actions_to_mkdir model_name w @
     [Print ''PROGRESS: 0.05'',
      Print ''Starting robust download with huggingface-cli...'',
      Start_monitor model_name (cache_dir_of w)]"

definition actions_to_spawn :: "string \<Rightarrow> world \<Rightarrow> action list" where
  "actions_to_spawn model_name w =
     actions_to_thread model_name w @
     [Print ''PROGRESS: 0.1'',
      Print ''Initializing download...'',
      Print ''PROGRESS: 0.2'',
      Print ''Executing download command...'',
      Print (''Command: '' @ join '' '' (cmd_of w model_name (the (model_mapping model_name)))),
      Spawn (cmd_of w model_name (the (model_mapping model_name)))]"

definition spawned :: "string \<Rightarrow> world \<Rightarrow> bool" where
  "spawned model_name w =
     (mkdir_raises w = None \<and> model_mapping model_name \<noteq> None \<and>
      thread_raises w = None \<and> popen_raises w = None)"

fun within_ceiling :: "rat \<Rightarrow> observation \<Rightarrow> bool" where
  "within_ceiling t0 (Running now) = (now - t0 \<le> timeout)"
| "within_ceiling t0 ob = False"

subsection \<open>A sample run\<close>

text \<open>
  A world in which every call of the supervisor returns normally: the instances of the
  theorems below are taken at it, with the observations of the polling loop as argument.
\<close>

definition example_world :: "observation list \<Rightarrow> world" where
  "example_world obs =
     \<lparr>home = ''/Users/me'', mkdir_raises = None, thread_raises = None, popen_raises = None,
      start_time = 1000, observations = obs, terminate_raises = None,
      communicate_result = Inr (''partial'', ''connection reset'')\<rparr>"

section \<open>Properties\<close>

subsection \<open>The size estimate and the progress fraction\<close>

lemma get_model_size_gb_cases:
  "get_model_size_gb m = 157 / 5 \<or> get_model_size_gb m = 21 / 5 \<or> get_model_size_gb m = 21 / 10"
  by (simp add: get_model_size_gb_def model_sizes_def)

lemma expected_size_bytes_pos: "0 < expected_size_bytes m"
  using get_model_size_gb_cases [of m] by (auto simp: expected_size_bytes_def)

lemma fraction_le: "fraction E t \<le> 19 / 20"
  unfolding fraction_def by (rule min.cobounded2)

lemma fraction_pos: "0 < E \<Longrightarrow> 0 < t \<Longrightarrow> 0 < fraction E t"
  by (simp add: fraction_def)

lemma fraction_full: "0 < E \<Longrightarrow> E \<le> of_nat t \<Longrightarrow> fraction E t = 19 / 20"
  by (simp add: fraction_def min_def divide_simps)

lemma monitor_iteration_cases:
  "monitor_iteration E l s = (l', t) \<Longrightarrow>
     (l' = l \<and> (t = Silent \<or> (\<exists>e. t = Sampling_error e \<and> add_dirs 0 s = Inl e))) \<or>
     (\<exists>n. add_dirs 0 s = Inr n \<and> 0 < n \<and> l < l' \<and> l' = fraction E n \<and> t = Emit l')"
  by (auto simp: monitor_iteration_def Let_def split: sum.splits if_splits)

lemma emitted_gt_last:
  "p \<in> set (emitted (monitor_loop E l ss)) \<Longrightarrow> l < p"
proof (induction ss arbitrary: l)
  case Nil
  then show ?case by simp
next
  case (Cons s ss)
  obtain l' t where it: "monitor_iteration E l s = (l', t)"
    by (cases "monitor_iteration E l s")
  from monitor_iteration_cases [OF it] Cons.prems it Cons.IH [of l']
  show ?case by (cases t) (auto split: if_splits)
qed

lemma emitted_sorted:
  "sorted_wrt (<) (emitted (monitor_loop E l ss))"
proof (induction ss arbitrary: l)
  case Nil
  then show ?case by simp
next
  case (Cons s ss)
  obtain l' t where it: "monitor_iteration E l s = (l', t)"
    by (cases "monitor_iteration E l s")
  from monitor_iteration_cases [OF it] it Cons.IH [of l'] emitted_gt_last [of _ E l' ss]
  show ?case by (cases t) auto
qed

lemma emitted_from_sample:
  "p \<in> set (emitted (monitor_loop E l ss)) \<Longrightarrow>
     \<exists>s \<in> set ss. \<exists>n. add_dirs 0 s = Inr n \<and> 0 < n \<and> p = fraction E n"
proof (induction ss arbitrary: l)
  case Nil
  then show ?case by simp
next
  case (Cons s ss)
  obtain l' t where it: "monitor_iteration E l s = (l', t)"
    by (cases "monitor_iteration E l s")
  from monitor_iteration_cases [OF it] Cons.prems it Cons.IH [of l']
  show ?case by (cases t) (auto split: if_splits)
qed

lemma dev_bytes: "expected_size_bytes ''dev'' = 22548578304 / 5"
  by (simp add: get_model_size_gb_def model_sizes_def expected_size_bytes_def)

lemma emitted_example:
  "emitted (monitor_download_progress ''dev''
      [[Tree [Size 0]], [Absent, Tree [Size 2818572288]], [Tree [Size 2818572288]],
       [Tree [Stat_fails (Exn ''gone'')]], [Tree [Size 5000000000], Absent]]) = [5 / 8, 19 / 20]"
  by (simp add: monitor_download_progress_def monitor_iteration_def fraction_def dev_bytes Let_def)

text \<open>
  Claim C9. The size estimate is a total function: an identifier absent from the fixed table
  gets the default of 2.1 (that is \<open>2.1 * 1024^3\<close> bytes), nothing is raised, and \<open>dev\<close>
  gets 4.2 (that is \<open>4.2 * 1024^3\<close> bytes).
\<close>

theorem get_model_size_gb_total:
  "get_model_size_gb ''dev'' = 21 / 5 \<and>
   expected_size_bytes ''dev'' = 21 / 5 * 1024 * 1024 * 1024 \<and>
   (model_name \<notin> {''schnell'', ''dev''} \<longrightarrow>
      get_model_size_gb model_name = 21 / 10 \<and>
      expected_size_bytes model_name = 21 / 10 * 1024 * 1024 * 1024)"
  by (simp add: get_model_size_gb_def model_sizes_def expected_size_bytes_def)

theorem get_model_size_gb_total_witness:
  "''flux-pro'' \<notin> {''schnell'', ''dev''} \<and>
   get_model_size_gb ''flux-pro'' = 21 / 10 \<and>
   expected_size_bytes ''flux-pro'' = 11274289152 / 5"
  using get_model_size_gb_total [of "''flux-pro''"] by simp

subsection \<open>The supervisor, stage by stage\<close>

lemma model_mapping_nonempty: "model_mapping m = Some hm \<Longrightarrow> hm \<noteq> []"
  by (auto simp: model_mapping_def split: if_splits)

lemma model_mapping_known: "(model_mapping m = None) = (m \<notin> {''schnell'', ''dev''})"
  by (simp add: model_mapping_def)

lemma body_mkdir_raises:
  "mkdir_raises w = Some e \<Longrightarrow> download_body m w = Some (actions_to_mkdir m w, Inl e)"
  by (simp add: download_body_def actions_to_mkdir_def)

lemma body_unknown:
  "mkdir_raises w = None \<Longrightarrow> model_mapping m = None \<Longrightarrow>
   download_body m w =
     Some (actions_to_mkdir m w @ [Print (''DOWNLOAD_ERROR: Unknown model '' @ m)], Inr False)"
  by (simp add: download_body_def actions_to_mkdir_def)


lemma body_popen_raises:
  "mkdir_raises w = None \<Longrightarrow> model_mapping m = Some hm \<Longrightarrow> thread_raises w = None \<Longrightarrow>
   popen_raises w = Some e \<Longrightarrow>
   download_body m w = Some (actions_to_spawn m w, Inl e)"
  by (simp add: download_body_def actions_to_mkdir_def actions_to_thread_def actions_to_spawn_def
        model_mapping_nonempty Let_def)

lemma body_spawned:
  "spawned m w \<Longrightarrow>
   download_body m w =
     (case wait_for_process (start_time w) (observations w) of
        None \<Rightarrow> None
      | Some (sleeps, Poll_raised e) \<Rightarrow> Some (actions_to_spawn m w @ sleeps, Inl e)
      | Some (sleeps, Timed_out) \<Rightarrow>
          Some (actions_to_spawn m w @ sleeps @
                  [Print ''DOWNLOAD_ERROR: Download timed out after 2 hours'', Terminate],
                case terminate_raises w of Some e \<Rightarrow> Inl e | None \<Rightarrow> Inr False)
      | Some (sleeps, Returned returncode) \<Rightarrow>
          if returncode = 0 then
            Some (actions_to_spawn m w @ sleeps @
                    [Print ''PROGRESS: 1.0'', Print ''DOWNLOAD_COMPLETE''], Inr True)
          else
            (case communicate_result w of
               Inl e \<Rightarrow> Some (actions_to_spawn m w @ sleeps @ [Communicate], Inl e)
             | Inr (stdout, stderr) \<Rightarrow>
                 Some (actions_to_spawn m w @ sleeps @
                       [Communicate,
                        Print (''DOWNLOAD_ERROR: Download failed with return code '' @
                               show_int returncode),
                        Print (''STDOUT: '' @ stdout),
                        Print (''STDERR: '' @ stderr)], Inr False)))"
  unfolding spawned_def
  apply (clarsimp simp: model_mapping_nonempty)
  apply (simp add: download_body_def actions_to_mkdir_def actions_to_thread_def actions_to_spawn_def
        model_mapping_nonempty Let_def
        split: option.splits wait_result.splits sum.splits prod.splits)
  done



lemma wait_prefix:
  "list_all (within_ceiling t0) pre \<Longrightarrow>
   wait_for_process t0 (pre @ obs) =
     (case wait_for_process t0 obs of
        None \<Rightarrow> None
      | Some (acts, r) \<Rightarrow> Some (replicate (length pre) (Sleep 5) @ acts, r))"
proof (induction pre)
  case Nil
  then show ?case by (simp split: option.splits)
next
  case (Cons ob pre)
  then show ?case by (cases ob) (auto split: option.splits)
qed

lemma wait_exited:
  "list_all (within_ceiling t0) pre \<Longrightarrow>
   wait_for_process t0 (pre @ Exited rc # rest) =
     Some (replicate (length pre) (Sleep 5), Returned rc)"
  by (simp add: wait_prefix)

lemma wait_timed_out:
  "list_all (within_ceiling t0) pre \<Longrightarrow> timeout < now - t0 \<Longrightarrow>
   wait_for_process t0 (pre @ Running now # rest) =
     Some (replicate (length pre) (Sleep 5), Timed_out)"
  by (simp add: wait_prefix)

lemma example_world_simps:
  "home (example_world obs) = ''/Users/me''"
  "mkdir_raises (example_world obs) = None"
  "thread_raises (example_world obs) = None"
  "popen_raises (example_world obs) = None"
  "start_time (example_world obs) = 1000"
  "observations (example_world obs) = obs"
  "terminate_raises (example_world obs) = None"
  "communicate_result (example_world obs) = Inr (''partial'', ''connection reset'')"
  by (simp_all add: example_world_def)

lemma spawned_example: "spawned ''dev'' (example_world obs)"
  by (simp add: spawned_def example_world_simps model_mapping_def)


lemma show_int_1: "show_int 1 = ''1''"
  by (simp add: show_int_def show_nat.simps digit_char_def)

subsection \<open>Reading what a run prints\<close>

lemma split_lines_nonempty: "split_lines s \<noteq> []"
  by (induction s) (auto simp: split_lines.simps split: list.splits)

lemma split_lines_Cons:
  "c \<noteq> CHR 0x0A \<Longrightarrow> split_lines (c # cs) = (c # hd (split_lines cs)) # tl (split_lines cs)"
  using split_lines_nonempty [of cs] by (cases "split_lines cs") (auto simp: split_lines.simps)

lemma hd_split_lines_Cons: "c \<noteq> CHR 0x0A \<Longrightarrow> hd (split_lines (c # cs)) = c # hd (split_lines cs)"
  by (simp add: split_lines_Cons)

lemma tl_split_lines_Cons: "c \<noteq> CHR 0x0A \<Longrightarrow> tl (split_lines (c # cs)) = tl (split_lines cs)"
  by (simp add: split_lines_Cons)

lemma split_lines_newline: "split_lines (CHR 0x0A # cs) = [] # split_lines cs"
  by (simp add: split_lines.simps)

lemma split_lines_plain: "CHR 0x0A \<notin> set s \<Longrightarrow> split_lines s = [s]"
  by (induction s) (auto simp: split_lines_Cons)

lemma lines_of_split:
  "lines_of (Print p # acts) = hd (split_lines p) # tl (split_lines p) @ lines_of acts"
  using split_lines_nonempty [of p] by (simp add: lines_of_def)

lemma digit_val_digit_char: "d < 10 \<Longrightarrow> digit_val (digit_char d) = Some d"
proof -
  assume "d < 10"
  then have "d \<in> {0, 1, 2, 3, 4, 5, 6, 7, 8, 9}" by auto
  then show ?thesis
    by (auto simp: digit_val_def digit_char_def)
qed

lemma digits_val_append:
  "digits_val acc (xs @ ys) =
     (case digits_val acc xs of None \<Rightarrow> None | Some v \<Rightarrow> digits_val v ys)"
  by (induction xs arbitrary: acc) (auto split: option.splits)

lemma digits_val_show_nat: "digits_val 0 (show_nat n) = Some n"
proof (induction n rule: show_nat.induct)
  case (1 n)
  show ?case
  proof (cases "n < 10")
    case True
    then show ?thesis by (simp add: show_nat.simps [of n] digit_val_digit_char)
  next
    case False
    with 1 have "digits_val 0 (show_nat (n div 10)) = Some (n div 10)" by simp
    with False show ?thesis
      by (simp add: show_nat.simps [of n] digits_val_append digit_val_digit_char)
  qed
qed

lemma digit_char_not_minus: "d < 10 \<Longrightarrow> digit_char d \<noteq> CHR ''-''"
proof -
  assume "d < 10"
  then have "d \<in> {0, 1, 2, 3, 4, 5, 6, 7, 8, 9}" by auto
  then show ?thesis by (auto simp: digit_char_def)
qed

lemma show_nat_hd: "\<exists>d ds. d < 10 \<and> show_nat n = digit_char d # ds"
proof (induction n rule: show_nat.induct)
  case (1 n)
  show ?case
  proof (cases "n < 10")
    case True
    then show ?thesis by (auto simp: show_nat.simps [of n])
  next
    case False
    with 1 obtain d ds where "d < 10" "show_nat (n div 10) = digit_char d # ds" by auto
    with False show ?thesis by (auto simp: show_nat.simps [of n])
  qed
qed

lemma read_int_show_int: "read_int (show_int i) = Some i"
proof (cases "i < 0")
  case True
  then show ?thesis
    by (simp add: read_int_def show_int_def digits_val_show_nat)
next
  case False
  obtain d ds where d: "d < 10" "show_nat (nat i) = digit_char d # ds"
    using show_nat_hd by blast
  with False digits_val_show_nat [of "nat i"] digit_char_not_minus [of d] show ?thesis
    by (simp add: read_int_def show_int_def)
qed


lemma round_half_even_floor: "\<lfloor>x\<rfloor> \<le> round_half_even x \<and> round_half_even x \<le> \<lfloor>x\<rfloor> + 1"
  by (simp add: round_half_even_def Let_def)

lemma round_half_even_ge: "of_int n \<le> x \<Longrightarrow> n \<le> round_half_even x"
proof -
  assume "of_int n \<le> x"
  then have "n \<le> \<lfloor>x\<rfloor>" by (simp add: le_floor_iff)
  with round_half_even_floor [of x] show ?thesis by linarith
qed

lemma round_half_even_le: "x \<le> of_int n \<Longrightarrow> round_half_even x \<le> n"
proof (cases "\<lfloor>x\<rfloor> < n")
  case True
  with round_half_even_floor [of x] show ?thesis by linarith
next
  case False
  assume "x \<le> of_int n"
  moreover from False have "n \<le> \<lfloor>x\<rfloor>" by simp
  then have "of_int n \<le> x" by (simp add: le_floor_iff)
  ultimately have "x = of_int n" by simp
  then show ?thesis by (simp add: round_half_even_def)
qed

lemma round_half_even_mono: "x \<le> y \<Longrightarrow> round_half_even x \<le> round_half_even y"
proof (cases "\<lfloor>x\<rfloor> < \<lfloor>y\<rfloor>")
  case True
  with round_half_even_floor [of x] round_half_even_floor [of y] show ?thesis by linarith
next
  case False
  assume xy: "x \<le> y"
  then have "\<lfloor>x\<rfloor> \<le> \<lfloor>y\<rfloor>" by (rule floor_mono)
  with False have f: "\<lfloor>y\<rfloor> = \<lfloor>x\<rfloor>" by simp
  with xy have "x - of_int \<lfloor>x\<rfloor> \<le> y - of_int \<lfloor>x\<rfloor>" by simp
  with f show ?thesis
    by (auto simp: round_half_even_def Let_def)
qed

lemma two_decimals_mono: "x \<le> y \<Longrightarrow> two_decimals x \<le> two_decimals y"
  using round_half_even_mono [of "x * 100" "y * 100"]
  by (simp add: two_decimals_def divide_right_mono)

lemma two_decimals_bounds:
  assumes "0 \<le> x" "x \<le> 19 / 20"
  shows "0 \<le> two_decimals x \<and> two_decimals x \<le> 19 / 20"
proof -
  from assms round_half_even_ge [of 0 "x * 100"] have "0 \<le> round_half_even (x * 100)"
    by simp
  moreover from assms round_half_even_le [of "x * 100" 95]
  have "round_half_even (x * 100) \<le> 95" by simp
  ultimately show ?thesis by (simp add: two_decimals_def)
qed

lemma format_2f_small:
  assumes "0 \<le> x" "x \<le> 19 / 20"
  shows "\<exists>h. h \<le> 95 \<and> int h = round_half_even (x * 100) \<and>
           format_2f x = [CHR ''0'', CHR ''.'', digit_char (h div 10), digit_char (h mod 10)]"
proof -
  from assms round_half_even_ge [of 0 "x * 100"] round_half_even_le [of "x * 100" 95]
  have r: "0 \<le> round_half_even (x * 100)" "round_half_even (x * 100) \<le> 95"
    by simp_all
  define h where "h = nat (round_half_even (x * 100))"
  with r have h: "h \<le> 95" "int h = round_half_even (x * 100)" by simp_all
  from assms(1) have "\<bar>x\<bar> = x" by simp
  with h(1) have "format_2f x = [CHR ''0'', CHR ''.'', digit_char (h div 10), digit_char (h mod 10)]"
    by (simp add: format_2f_def Let_def h_def [symmetric] show_nat.simps digit_char_def)
  with h show ?thesis by blast
qed

lemma digit_val_zero: "digit_val CHR ''0'' = Some 0"
  by (simp add: digit_val_def)

lemma parse_decimal_two_digits:
  assumes "a < 10" "b < 10"
  shows "parse_decimal [CHR ''0'', CHR ''.'', digit_char a, digit_char b] =
           Some (of_nat (10 * a + b) / 100)"
  using assms by (simp add: parse_decimal_def digit_val_digit_char digit_val_zero)

lemma read_progress_format_2f:
  assumes "0 \<le> x" "x \<le> 19 / 20"
  shows "read_progress (''PROGRESS: '' @ format_2f x) = Some (two_decimals x)"
proof -
  from format_2f_small [OF assms] obtain h where h: "h \<le> 95"
    "int h = round_half_even (x * 100)"
    "format_2f x = [CHR ''0'', CHR ''.'', digit_char (h div 10), digit_char (h mod 10)]"
    by blast
  from h(1) have d: "h div 10 < 10" "h mod 10 < 10" by simp_all
  have "10 * (h div 10) + h mod 10 = h" by simp
  with parse_decimal_two_digits [OF d] have
    "parse_decimal (format_2f x) = Some (of_nat h / 100)"
    by (simp only: h(3))
  moreover have "two_decimals x = of_nat h / 100"
    unfolding two_decimals_def h(2) [symmetric] by simp
  ultimately show ?thesis
    by (simp add: read_progress_def)
qed

lemma format_2f_plain: "0 \<le> x \<Longrightarrow> x \<le> 19 / 20 \<Longrightarrow> split_lines (''PROGRESS: '' @ format_2f x) = [''PROGRESS: '' @ format_2f x]"
proof -
  assume a: "0 \<le> x" "x \<le> 19 / 20"
  from format_2f_small [OF a] obtain h where h: "h \<le> 95"
    "format_2f x = [CHR ''0'', CHR ''.'', digit_char (h div 10), digit_char (h mod 10)]"
    by blast
  have nl: "k < 10 \<Longrightarrow> digit_char k \<noteq> CHR 0x0A" for k
  proof -
    assume "k < 10"
    then have "k \<in> {0, 1, 2, 3, 4, 5, 6, 7, 8, 9}" by auto
    then show ?thesis by (auto simp: digit_char_def)
  qed
  from h(1) have "h div 10 < 10" "h mod 10 < 10" by simp_all
  with nl have "digit_char (h div 10) \<noteq> CHR 0x0A" "digit_char (h mod 10) \<noteq> CHR 0x0A"
    by blast+
  then show ?thesis
    by (intro split_lines_plain) (simp add: h(2))
qed

lemma fraction_example:
  "fraction (expected_size_bytes ''dev'') 352321536 = 5 / 64"
  by (simp add: dev_bytes fraction_def)

lemma format_example: "format_2f (5 / 64) = ''0.08''"
proof -
  have "\<lfloor>\<bar>5 / 64\<bar> * 100 :: rat\<rfloor> = 7"
    by (simp add: floor_eq_iff)
  then have h: "nat (round_half_even (\<bar>5 / 64\<bar> * 100)) = 8"
    by (simp add: round_half_even_def Let_def)
  show ?thesis
    unfolding format_2f_def Let_def h
    by (simp add: show_nat.simps digit_char_def)
qed

lemma read_example: "read_progress ''PROGRESS: 0.08'' = Some (2 / 25)"
  by (simp add: read_progress_def parse_decimal_def digit_val_def)

lemma monitor_actions_example:
  "monitor_actions ''dev'' [[Absent, Tree [Size 352321536], Absent]] =
     [Print ''PROGRESS: 0.08'', Sleep 2]"
  by (simp add: monitor_actions_def monitor_download_progress_def monitor_iteration_def
        fraction_example [unfolded dev_bytes] dev_bytes format_example Let_def)


lemma read_progress_literals:
  "read_progress ''PROGRESS: 0.05'' = Some (1 / 20)"
  "read_progress ''PROGRESS: 0.1'' = Some (1 / 10)"
  "read_progress ''PROGRESS: 0.2'' = Some (1 / 5)"
  "read_progress ''PROGRESS: 1.0'' = Some 1"
  by (simp_all add: read_progress_def parse_decimal_def digit_val_def)

lemma read_progress_other: "c \<noteq> CHR ''P'' \<Longrightarrow> read_progress (c # cs) = None"
  by (simp add: read_progress_def)


lemma not_terminal_lines:
  "\<not> is_terminal ''DOWNLOAD_START''"
  "\<not> is_terminal (''Downloading model: '' @ m)"
  by (simp_all add: is_terminal_def)

lemma printed_append: "printed (xs @ ys) = printed xs @ printed ys"
  by (induction xs rule: printed.induct) auto


lemma progress_readings_append:
  "progress_readings (xs @ ys) = progress_readings xs @ progress_readings ys"
  by (simp add: progress_readings_def map_filter_def)

lemma progress_readings_Cons:
  "progress_readings (l # ls) =
     (case read_progress l of None \<Rightarrow> progress_readings ls | Some q \<Rightarrow> q # progress_readings ls)"
  by (simp add: progress_readings_def map_filter_def split: option.splits)

lemma progress_readings_Nil: "progress_readings [] = []"
  by (simp add: progress_readings_def map_filter_def)

lemma printed_to_mkdir:
  "printed (actions_to_mkdir m w) = [''DOWNLOAD_START'', ''Downloading model: '' @ m]"
  by (simp add: actions_to_mkdir_def)

lemma printed_to_thread:
  "printed (actions_to_thread m w) =
     printed (actions_to_mkdir m w) @
     [''PROGRESS: 0.05'', ''Starting robust download with huggingface-cli...'']"
  by (simp add: actions_to_thread_def printed_append)

lemma printed_to_spawn:
  "printed (actions_to_spawn m w) =
     printed (actions_to_thread m w) @
     [''PROGRESS: 0.1'', ''Initializing download...'', ''PROGRESS: 0.2'',
      ''Executing download command...'',
      ''Command: '' @ join '' '' (cmd_of w m (the (model_mapping m)))]"
  by (simp add: actions_to_spawn_def printed_append)

lemma readings_to_mkdir: "progress_readings (printed (actions_to_mkdir m w)) = []"
  by (simp add: printed_to_mkdir progress_readings_Cons progress_readings_Nil read_progress_other)

lemma readings_to_thread: "progress_readings (printed (actions_to_thread m w)) = [1 / 20]"
  by (simp add: printed_to_thread progress_readings_append readings_to_mkdir
        progress_readings_Cons progress_readings_Nil read_progress_other read_progress_literals)

lemma readings_to_spawn:
  "progress_readings (printed (actions_to_spawn m w)) = [1 / 20, 1 / 10, 1 / 5]"
  by (simp add: printed_to_spawn progress_readings_append readings_to_thread
        progress_readings_Cons progress_readings_Nil read_progress_other read_progress_literals)

lemma download_exit_zero_example:
  "download_model_robust ''dev'' (example_world [Exited 0]) =
     Some (True, actions_to_spawn ''dev'' (example_world [Exited 0]) @
                 [Print ''PROGRESS: 1.0'', Print ''DOWNLOAD_COMPLETE''])"
  by (simp add: download_model_robust_def body_spawned spawned_example example_world_simps)

lemma download_exit_one_example:
  "download_model_robust ''dev'' (example_world [Exited 1]) =
     Some (False, actions_to_spawn ''dev'' (example_world [Exited 1]) @
                  [Communicate,
                   Print ''DOWNLOAD_ERROR: Download failed with return code 1'',
                   Print ''STDOUT: partial'',
                   Print ''STDERR: connection reset''])"
  by (simp add: download_model_robust_def body_spawned spawned_example example_world_simps
        show_int_1)

lemma download_late_exit_example:
  "download_model_robust ''dev'' (example_world [Running 1002, Exited 0]) =
     Some (True, actions_to_spawn ''dev'' (example_world [Running 1002, Exited 0]) @
                 [Sleep 5, Print ''PROGRESS: 1.0'', Print ''DOWNLOAD_COMPLETE''])"
  by (simp add: download_model_robust_def body_spawned spawned_example example_world_simps
        timeout_def)

lemma job_stream_example:
  "printed (job_stream [True, True, True, True, True, True, False]
      (actions_to_spawn ''dev'' w @ [Sleep 5, Print ''PROGRESS: 1.0'', Print ''DOWNLOAD_COMPLETE''])
      [Print ''PROGRESS: 0.08'', Sleep 2]) =
   printed (actions_to_spawn ''dev'' w) @
     [''PROGRESS: 0.08'', ''PROGRESS: 1.0'', ''DOWNLOAD_COMPLETE'']"
  by (simp add: actions_to_spawn_def actions_to_thread_def actions_to_mkdir_def)

lemma body_popen_example:
  "download_body ''dev'' (example_world []\<lparr>popen_raises := Some e\<rparr>) =
     Some (actions_to_spawn ''dev'' (example_world []\<lparr>popen_raises := Some e\<rparr>), Inl e)"
  by (rule body_popen_raises [where hm = "''black-forest-labs/FLUX.1-dev''"])
     (simp_all add: example_world_simps model_mapping_def)


subsection \<open>From payloads to lines\<close>

lemma emitted_mem: "(p \<in> set (emitted ts)) = (Emit p \<in> set ts)"
  by (induction ts rule: emitted.induct) auto

lemma emitted_bounds:
  assumes "p \<in> set (emitted (monitor_download_progress m samples))"
  shows "0 < p \<and> p \<le> 19 / 20"
proof -
  from assms obtain n where "0 < n" "p = fraction (expected_size_bytes m) n"
    unfolding monitor_download_progress_def using emitted_from_sample by blast
  with fraction_pos [OF expected_size_bytes_pos, of n m]
    fraction_le [of "expected_size_bytes m" n]
  show ?thesis by blast
qed

lemma lines_of_append: "lines_of (xs @ ys) = lines_of xs @ lines_of ys"
  by (simp add: lines_of_def printed_append)



lemma progress_readings_filter:
  "list_all (\<lambda>l. read_progress l = None) ls \<Longrightarrow> progress_readings ls = []"
  by (induction ls) (auto simp: progress_readings_Cons progress_readings_Nil)

lemma readings_of_lines:
  "list_all (\<lambda>l. read_progress l = None) (continuation_lines acts) \<Longrightarrow>
   progress_readings (lines_of acts) = progress_readings (first_lines acts)"
proof (induction acts rule: printed.induct)
  case 1
  then show ?case by (simp add: lines_of_def first_lines_def)
next
  case (2 p acts)
  then have c: "list_all (\<lambda>l. read_progress l = None) (tl (split_lines p))"
    and r: "list_all (\<lambda>l. read_progress l = None) (continuation_lines acts)"
    by (simp_all add: continuation_lines_def)
  from 2(1) [OF r] progress_readings_filter [OF c] show ?case
    by (simp add: lines_of_split first_lines_def progress_readings_Cons
          progress_readings_append [of "tl (split_lines p)"] split: option.splits)
qed (simp_all add: lines_of_def first_lines_def continuation_lines_def)


lemma tick_first_lines:
  assumes "\<forall>p. Emit p \<in> set ts \<longrightarrow> 0 \<le> p \<and> p \<le> 19 / 20"
  shows "progress_readings (first_lines (concat (map tick_actions ts))) =
           map two_decimals (emitted ts)"
  using assms
proof (induction ts)
  case Nil
  then show ?case by (simp add: first_lines_def progress_readings_Nil)
next
  case (Cons t ts)
  then have ih: "progress_readings (first_lines (concat (map tick_actions ts))) =
           map two_decimals (emitted ts)" by simp
  show ?case
  proof (cases t)
    case (Emit p)
    with Cons.prems have b: "0 \<le> p" "p \<le> 19 / 20" by simp_all
    from Emit ih show ?thesis
      by (simp add: first_lines_def progress_readings_Cons format_2f_plain [OF b, simplified]
            read_progress_format_2f [OF b, simplified])
  next
    case Silent
    with ih show ?thesis by (simp add: first_lines_def)
  next
    case (Sampling_error e)
    with ih show ?thesis
      by (simp add: first_lines_def progress_readings_Cons hd_split_lines_Cons read_progress_def)
  qed
qed

lemma monitor_readings:
  assumes "list_all (\<lambda>l. read_progress l = None) (continuation_lines (monitor_actions m samples))"
  shows "progress_readings (lines_of (monitor_actions m samples)) =
           map two_decimals (emitted (monitor_download_progress m samples))"
proof -
  have "\<forall>p. Emit p \<in> set (monitor_download_progress m samples) \<longrightarrow> 0 \<le> p \<and> p \<le> 19 / 20"
  proof (intro allI impI)
    fix p assume "Emit p \<in> set (monitor_download_progress m samples)"
    then have "p \<in> set (emitted (monitor_download_progress m samples))"
      by (simp add: emitted_mem)
    from emitted_bounds [OF this] show "0 \<le> p \<and> p \<le> 19 / 20" by simp
  qed
  from tick_first_lines [OF this] readings_of_lines [OF assms] show ?thesis
    by (simp add: monitor_actions_def)
qed

lemma sorted_two_decimals: "sorted_wrt (<) xs \<Longrightarrow> sorted (map two_decimals xs)"
proof (induction xs)
  case Nil
  then show ?case by simp
next
  case (Cons x xs)
  then show ?case by (auto intro!: two_decimals_mono)
qed

lemma two_decimals_tiny: "0 \<le> x \<Longrightarrow> x < 1 / 200 \<Longrightarrow> two_decimals x = 0"
proof -
  assume a: "0 \<le> x" "x < 1 / 200"
  then have "\<lfloor>x * 100\<rfloor> = 0" by (simp add: floor_eq_iff)
  with a show ?thesis by (simp add: two_decimals_def round_half_even_def Let_def)
qed

lemma format_cap: "format_2f (19 / 20) = ''0.95''"
proof -
  have "\<lfloor>\<bar>19 / 20\<bar> * 100 :: rat\<rfloor> = 95"
    by (simp add: floor_eq_iff)
  then have h: "nat (round_half_even (\<bar>19 / 20\<bar> * 100)) = 95"
    by (simp add: round_half_even_def Let_def)
  show ?thesis
    unfolding format_2f_def Let_def h
    by (simp add: show_nat.simps digit_char_def)
qed

lemma format_five_eighths: "format_2f (5 / 8) = ''0.62''"
proof -
  have "\<lfloor>\<bar>5 / 8\<bar> * 100 :: rat\<rfloor> = 62"
    by (simp add: floor_eq_iff)
  then have h: "nat (round_half_even (\<bar>5 / 8\<bar> * 100)) = 62"
    by (simp add: round_half_even_def Let_def)
  show ?thesis
    unfolding format_2f_def Let_def h
    by (simp add: show_nat.simps digit_char_def)
qed

lemma format_four_bytes: "format_2f (5 / 5637144576) = ''0.00''"
proof -
  have "\<lfloor>\<bar>5 / 5637144576\<bar> * 100 :: rat\<rfloor> = 0"
    by (simp add: floor_eq_iff)
  then have h: "nat (round_half_even (\<bar>5 / 5637144576\<bar> * 100)) = 0"
    by (simp add: round_half_even_def Let_def)
  show ?thesis
    unfolding format_2f_def Let_def h
    by (simp add: show_nat.simps digit_char_def)
qed

lemma format_two_bytes: "format_2f (5 / 11274289152) = ''0.00''"
proof -
  have "\<lfloor>\<bar>5 / 11274289152\<bar> * 100 :: rat\<rfloor> = 0"
    by (simp add: floor_eq_iff)
  then have h: "nat (round_half_even (\<bar>5 / 11274289152\<bar> * 100)) = 0"
    by (simp add: round_half_even_def Let_def)
  show ?thesis
    unfolding format_2f_def Let_def h
    by (simp add: show_nat.simps digit_char_def)
qed

lemma two_decimals_values:
  "two_decimals (5 / 8) = 31 / 50"
  "two_decimals (19 / 20) = 19 / 20"
proof -
  have "\<lfloor>5 / 8 * 100 :: rat\<rfloor> = 62" by (simp add: floor_eq_iff)
  then show "two_decimals (5 / 8) = 31 / 50"
    by (simp add: two_decimals_def round_half_even_def Let_def)
  have "\<lfloor>19 / 20 * 100 :: rat\<rfloor> = 95" by (simp add: floor_eq_iff)
  then show "two_decimals (19 / 20) = 19 / 20"
    by (simp add: two_decimals_def round_half_even_def Let_def)
qed

lemma monitor_two_bytes:
  "monitor_download_progress ''dev'' [[Tree [Size 2]], [Absent, Tree [Size 2, Size 2]]] =
     [Emit (5 / 11274289152), Emit (5 / 5637144576)]"
  by (simp add: monitor_download_progress_def monitor_iteration_def fraction_def dev_bytes Let_def)

lemma monitor_actions_two_bytes:
  "monitor_actions ''dev'' [[Tree [Size 2]], [Absent, Tree [Size 2, Size 2]]] =
     [Print ''PROGRESS: 0.00'', Sleep 2, Print ''PROGRESS: 0.00'', Sleep 2]"
  by (simp add: monitor_actions_def monitor_two_bytes format_four_bytes format_two_bytes)

lemma read_zero: "read_progress ''PROGRESS: 0.00'' = Some 0"
  by (simp add: read_progress_def parse_decimal_def digit_val_def)

lemma readings_two_bytes:
  "progress_readings (lines_of [Print ''PROGRESS: 0.00'', Sleep 2, Print ''PROGRESS: 0.00'', Sleep 2]) = [0, 0]"
  by (simp add: lines_of_def split_lines_plain progress_readings_Cons progress_readings_Nil read_zero)

lemma monitor_example:
  "monitor_download_progress ''dev''
      [[Tree [Size 0]], [Absent, Tree [Size 2818572288]], [Tree [Size 2818572288]],
       [Tree [Stat_fails (Exn ''gone'')]], [Tree [Size 5000000000], Absent]] =
     [Silent, Emit (5 / 8), Silent, Sampling_error (Exn ''gone''), Emit (19 / 20)]"
  by (simp add: monitor_download_progress_def monitor_iteration_def fraction_def dev_bytes Let_def)

lemma monitor_actions_long_example:
  "monitor_actions ''dev''
      [[Tree [Size 0]], [Absent, Tree [Size 2818572288]], [Tree [Size 2818572288]],
       [Tree [Stat_fails (Exn ''gone'')]], [Tree [Size 5000000000], Absent]] =
     [Sleep 2, Print ''PROGRESS: 0.62'', Sleep 2, Sleep 2,
      Print ''PROGRESS_MONITOR_ERROR: gone'', Sleep 5, Print ''PROGRESS: 0.95'', Sleep 2]"
  by (simp add: monitor_actions_def monitor_example format_five_eighths format_cap)

lemma continuation_long_example:
  "continuation_lines
     [Sleep 2, Print ''PROGRESS: 0.62'', Sleep 2, Sleep 2,
      Print ''PROGRESS_MONITOR_ERROR: gone'', Sleep 5, Print ''PROGRESS: 0.95'', Sleep 2] = []"
  by (simp add: continuation_lines_def split_lines_plain)

subsection \<open>What the monitor emits\<close>

lemma two_decimals_half: "1 / 200 < x \<Longrightarrow> 0 < two_decimals x"
proof -
  assume a: "1 / 200 < x"
  then have "of_int 0 \<le> x * 100" by simp
  then have f: "0 \<le> \<lfloor>x * 100\<rfloor>" by (simp add: le_floor_iff)
  have "1 \<le> round_half_even (x * 100)"
  proof (cases "\<lfloor>x * 100\<rfloor> = 0")
    case True
    with a show ?thesis by (simp add: round_half_even_def Let_def)
  next
    case False
    with f round_half_even_floor [of "x * 100"] show ?thesis by linarith
  qed
  then show ?thesis by (simp add: two_decimals_def)
qed

lemma monitor_actions_one_sample:
  "monitor_actions ''dev'' [[Tree [Size 2]]] = [Print ''PROGRESS: 0.00'', Sleep 2]"
  by (simp add: monitor_actions_def monitor_download_progress_def monitor_iteration_def
        fraction_def dev_bytes Let_def format_two_bytes)

lemma silent_prints_nothing:
  "(\<forall>s \<in> set samples. add_dirs 0 s = Inr 0) \<Longrightarrow>
   printed (concat (map tick_actions (monitor_loop E l samples))) = []"
  by (induction samples arbitrary: l) (auto simp: monitor_iteration_def)

text \<open>
  Claim C1, as amended. In an iteration that samples a byte total, the fraction is
  \<open>min (total / expected) 0.95\<close> and an event is emitted exactly when the fraction exceeds the
  last emitted value. So the fractions of the emitted events are strictly increasing, each is
  the capped quotient of a sampled total and none exceeds 0.95 (none is 1). A total of at least
  the expected size gives exactly 0.95, printed as \<open>PROGRESS: 0.95\<close>. The lines the monitor
  prints read as these fractions rounded to two decimals: a non-decreasing sequence, in which
  two fractions may read alike, and never above 0.95 (provided no error message of the monitor
  carries an embedded line that itself reads as a progress line).
\<close>

theorem monitor_fraction_capped_increasing:
  "(add_dirs 0 cache_dirs = Inr total_size \<and> 0 \<le> last_progress \<longrightarrow>
      monitor_iteration (expected_size_bytes model_name) last_progress cache_dirs =
        (if last_progress < fraction (expected_size_bytes model_name) total_size
         then (fraction (expected_size_bytes model_name) total_size,
               Emit (fraction (expected_size_bytes model_name) total_size))
         else (last_progress, Silent))) \<and>
   sorted_wrt (<) (emitted (monitor_download_progress model_name samples)) \<and>
   (\<forall>p \<in> set (emitted (monitor_download_progress model_name samples)).
      p \<le> 19 / 20 \<and> p \<noteq> 1 \<and>
      (\<exists>s \<in> set samples. \<exists>n. add_dirs 0 s = Inr n \<and>
         p = min (of_nat n / expected_size_bytes model_name) (19 / 20))) \<and>
   (expected_size_bytes model_name \<le> of_nat total_size \<longrightarrow>
      fraction (expected_size_bytes model_name) total_size = 19 / 20 \<and>
      tick_actions (Emit (fraction (expected_size_bytes model_name) total_size)) =
        [Print ''PROGRESS: 0.95'', Sleep 2]) \<and>
   (list_all (\<lambda>l. read_progress l = None)
      (continuation_lines (monitor_actions model_name samples)) \<longrightarrow>
      progress_readings (lines_of (monitor_actions model_name samples)) =
        map two_decimals (emitted (monitor_download_progress model_name samples)) \<and>
      sorted (progress_readings (lines_of (monitor_actions model_name samples))) \<and>
      (\<forall>r \<in> set (progress_readings (lines_of (monitor_actions model_name samples))).
         r \<le> 19 / 20))"
proof (intro conjI impI ballI)
  assume a: "add_dirs 0 cache_dirs = Inr total_size \<and> 0 \<le> last_progress"
  show "monitor_iteration (expected_size_bytes model_name) last_progress cache_dirs =
        (if last_progress < fraction (expected_size_bytes model_name) total_size
         then (fraction (expected_size_bytes model_name) total_size,
               Emit (fraction (expected_size_bytes model_name) total_size))
         else (last_progress, Silent))"
  proof (cases "0 < total_size")
    case True
    with a show ?thesis by (simp add: monitor_iteration_def Let_def)
  next
    case False
    then have "fraction (expected_size_bytes model_name) total_size = 0"
      by (simp add: fraction_def)
    with a False show ?thesis by (simp add: monitor_iteration_def)
  qed
next
  show "sorted_wrt (<) (emitted (monitor_download_progress model_name samples))"
    by (simp add: monitor_download_progress_def emitted_sorted)
next
  fix p assume p: "p \<in> set (emitted (monitor_download_progress model_name samples))"
  then obtain s n where sn: "s \<in> set samples" "add_dirs 0 s = Inr n"
      "p = fraction (expected_size_bytes model_name) n"
    unfolding monitor_download_progress_def using emitted_from_sample by blast
  from sn fraction_le [of "expected_size_bytes model_name" n]
  show le: "p \<le> 19 / 20" by blast
  from le show "p \<noteq> 1" by auto
  from sn show "\<exists>s \<in> set samples. \<exists>n. add_dirs 0 s = Inr n \<and>
         p = min (of_nat n / expected_size_bytes model_name) (19 / 20)"
    unfolding fraction_def by blast
next
  assume "expected_size_bytes model_name \<le> of_nat total_size"
  then show f: "fraction (expected_size_bytes model_name) total_size = 19 / 20"
    by (simp add: fraction_full expected_size_bytes_pos)
  show "tick_actions (Emit (fraction (expected_size_bytes model_name) total_size)) =
        [Print ''PROGRESS: 0.95'', Sleep 2]"
    unfolding f by (simp add: format_cap)
next
  assume h: "list_all (\<lambda>l. read_progress l = None)
      (continuation_lines (monitor_actions model_name samples))"
  from monitor_readings [OF h]
  show r: "progress_readings (lines_of (monitor_actions model_name samples)) =
        map two_decimals (emitted (monitor_download_progress model_name samples))" .
  have "sorted_wrt (<) (emitted (monitor_download_progress model_name samples))"
    by (simp add: monitor_download_progress_def emitted_sorted)
  then show "sorted (progress_readings (lines_of (monitor_actions model_name samples)))"
    unfolding r by (rule sorted_two_decimals)
  fix q assume "q \<in> set (progress_readings (lines_of (monitor_actions model_name samples)))"
  with r obtain p where p: "p \<in> set (emitted (monitor_download_progress model_name samples))"
    "q = two_decimals p" by auto
  from emitted_bounds [OF p(1)] two_decimals_bounds [of p] p(2)
  show "q \<le> 19 / 20" by simp
qed

theorem monitor_fraction_capped_increasing_witness:
  "add_dirs 0 [Absent, Tree [Size 4509715661]] = Inr 4509715661 \<and> (0::rat) \<le> 1 / 2 \<and>
   expected_size_bytes ''dev'' \<le> of_nat 4509715661 \<and>
   monitor_iteration (expected_size_bytes ''dev'') (1 / 2) [Absent, Tree [Size 4509715661]] =
     (19 / 20, Emit (19 / 20)) \<and>
   tick_actions (Emit (fraction (expected_size_bytes ''dev'') 4509715661)) =
     [Print ''PROGRESS: 0.95'', Sleep 2] \<and>
   emitted (monitor_download_progress ''dev''
      [[Tree [Size 0]], [Absent, Tree [Size 2818572288]], [Tree [Size 2818572288]],
       [Tree [Stat_fails (Exn ''gone'')]], [Tree [Size 5000000000], Absent]]) = [5 / 8, 19 / 20] \<and>
   sorted_wrt (<) [5 / 8, 19 / 20 :: rat] \<and>
   continuation_lines (monitor_actions ''dev''
      [[Tree [Size 0]], [Absent, Tree [Size 2818572288]], [Tree [Size 2818572288]],
       [Tree [Stat_fails (Exn ''gone'')]], [Tree [Size 5000000000], Absent]]) = [] \<and>
   progress_readings (lines_of (monitor_actions ''dev''
      [[Tree [Size 0]], [Absent, Tree [Size 2818572288]], [Tree [Size 2818572288]],
       [Tree [Stat_fails (Exn ''gone'')]], [Tree [Size 5000000000], Absent]])) = [31 / 50, 19 / 20]"
  using monitor_fraction_capped_increasing
    [of "[Absent, Tree [Size 4509715661]]" 4509715661 "1 / 2" "''dev''"
        "[[Tree [Size 0]], [Absent, Tree [Size 2818572288]], [Tree [Size 2818572288]],
          [Tree [Stat_fails (Exn ''gone'')]], [Tree [Size 5000000000], Absent]]"]
  by (simp add: dev_bytes emitted_example monitor_actions_long_example
        continuation_long_example two_decimals_values)

text \<open>
  Claim C1 as stated fails for what is printed: with 2 and then 4 bytes in the cache
  directories both fractions are emitted, and both are printed as \<open>PROGRESS: 0.00\<close>.
\<close>

theorem printed_fractions_repeat_counterexample:
  "emitted (monitor_download_progress ''dev'' [[Tree [Size 2]], [Absent, Tree [Size 2, Size 2]]]) =
     [5 / 11274289152, 5 / 5637144576] \<and>
   monitor_actions ''dev'' [[Tree [Size 2]], [Absent, Tree [Size 2, Size 2]]] =
     [Print ''PROGRESS: 0.00'', Sleep 2, Print ''PROGRESS: 0.00'', Sleep 2] \<and>
   progress_readings (lines_of
     (monitor_actions ''dev'' [[Tree [Size 2]], [Absent, Tree [Size 2, Size 2]]])) = [0, 0] \<and>
   \<not> sorted_wrt (<) [0, 0 :: rat]"
  by (simp add: monitor_two_bytes monitor_actions_two_bytes readings_two_bytes)

text \<open>
  Claim C10, as amended. An iteration whose byte total is 0 emits and prints nothing; as long
  as every sample had total 0 nothing is printed at all, and as long as every sample had total
  0 or failed, no event is emitted. The fraction of every emitted event is strictly positive.
  What is printed for it is that fraction rounded to two decimals, which is never negative, is
  0.00 for a fraction below 0.005 and is positive for a fraction above 0.005.
\<close>

theorem monitor_silent_on_zero:
  "(add_dirs 0 cache_dirs = Inr 0 \<longrightarrow>
      monitor_iteration expected last_progress cache_dirs = (last_progress, Silent) \<and>
      printed (tick_actions (snd (monitor_iteration expected last_progress cache_dirs))) = []) \<and>
   (\<forall>p \<in> set (emitted (monitor_download_progress model_name samples)). 0 < p) \<and>
   ((\<forall>s \<in> set samples. add_dirs 0 s = Inr 0 \<or> (\<exists>e. add_dirs 0 s = Inl e)) \<longrightarrow>
      emitted (monitor_download_progress model_name samples) = []) \<and>
   ((\<forall>s \<in> set samples. add_dirs 0 s = Inr 0) \<longrightarrow>
      printed (monitor_actions model_name samples) = []) \<and>
   (list_all (\<lambda>l. read_progress l = None)
      (continuation_lines (monitor_actions model_name samples)) \<longrightarrow>
      progress_readings (lines_of (monitor_actions model_name samples)) =
        map two_decimals (emitted (monitor_download_progress model_name samples)) \<and>
      (\<forall>r \<in> set (progress_readings (lines_of (monitor_actions model_name samples))).
         0 \<le> r)) \<and>
   (0 \<le> x \<and> x < 1 / 200 \<longrightarrow> two_decimals x = 0) \<and>
   (1 / 200 < x \<longrightarrow> 0 < two_decimals x)"
proof (intro conjI impI ballI)
  assume "add_dirs 0 cache_dirs = Inr 0"
  then show it: "monitor_iteration expected last_progress cache_dirs = (last_progress, Silent)"
    by (simp add: monitor_iteration_def)
  show "printed (tick_actions (snd (monitor_iteration expected last_progress cache_dirs))) = []"
    by (simp add: it)
next
  fix p assume "p \<in> set (emitted (monitor_download_progress model_name samples))"
  from emitted_bounds [OF this] show "0 < p" by simp
next
  assume a: "\<forall>s \<in> set samples. add_dirs 0 s = Inr 0 \<or> (\<exists>e. add_dirs 0 s = Inl e)"
  show "emitted (monitor_download_progress model_name samples) = []"
  proof (cases "emitted (monitor_download_progress model_name samples)")
    case Nil
    then show ?thesis .
  next
    case (Cons p ps)
    then have "p \<in> set (emitted (monitor_download_progress model_name samples))"
      by simp
    then obtain s n where "s \<in> set samples" "add_dirs 0 s = Inr n" "0 < n"
      unfolding monitor_download_progress_def using emitted_from_sample by blast
    with a show ?thesis by auto
  qed
next
  assume "\<forall>s \<in> set samples. add_dirs 0 s = Inr 0"
  then show "printed (monitor_actions model_name samples) = []"
    by (simp add: monitor_actions_def monitor_download_progress_def silent_prints_nothing)
next
  assume h: "list_all (\<lambda>l. read_progress l = None)
      (continuation_lines (monitor_actions model_name samples))"
  from monitor_readings [OF h]
  show r: "progress_readings (lines_of (monitor_actions model_name samples)) =
        map two_decimals (emitted (monitor_download_progress model_name samples))" .
  fix q assume "q \<in> set (progress_readings (lines_of (monitor_actions model_name samples)))"
  with r obtain y where y: "y \<in> set (emitted (monitor_download_progress model_name samples))"
    "q = two_decimals y" by auto
  from emitted_bounds [OF y(1)] two_decimals_bounds [of y] y(2)
  show "0 \<le> q" by simp
next
  assume "0 \<le> x \<and> x < 1 / 200"
  then show "two_decimals x = 0" by (simp add: two_decimals_tiny)
next
  assume "1 / 200 < x"
  then show "0 < two_decimals x" by (rule two_decimals_half)
qed

theorem monitor_silent_on_zero_witness:
  "add_dirs 0 [Absent, Tree [Vanished, Size 0]] = Inr 0 \<and>
   monitor_iteration (expected_size_bytes ''dev'') (1 / 4) [Absent, Tree [Vanished, Size 0]] =
     (1 / 4, Silent) \<and>
   add_dirs 0 [Tree [Stat_fails (Exn ''gone'')]] = Inl (Exn ''gone'') \<and>
   emitted (monitor_download_progress ''dev''
      [[Absent, Tree [Vanished, Size 0]], [Tree [Stat_fails (Exn ''gone'')]]]) = [] \<and>
   printed (monitor_actions ''dev'' [[Absent, Tree [Vanished, Size 0]]]) = [] \<and>
   emitted (monitor_download_progress ''dev''
      [[Tree [Size 0]], [Absent, Tree [Size 2818572288]], [Tree [Size 2818572288]],
       [Tree [Stat_fails (Exn ''gone'')]], [Tree [Size 5000000000], Absent]]) = [5 / 8, 19 / 20] \<and>
   (0 :: rat) < 5 / 8 \<and> (0 :: rat) < 19 / 20 \<and>
   continuation_lines (monitor_actions ''dev''
      [[Tree [Size 0]], [Absent, Tree [Size 2818572288]], [Tree [Size 2818572288]],
       [Tree [Stat_fails (Exn ''gone'')]], [Tree [Size 5000000000], Absent]]) = [] \<and>
   progress_readings (lines_of (monitor_actions ''dev''
      [[Tree [Size 0]], [Absent, Tree [Size 2818572288]], [Tree [Size 2818572288]],
       [Tree [Stat_fails (Exn ''gone'')]], [Tree [Size 5000000000], Absent]])) = [31 / 50, 19 / 20] \<and>
   (0 :: rat) \<le> 1 / 400 \<and> (1 / 400 :: rat) < 1 / 200 \<and> two_decimals (1 / 400) = 0 \<and>
   (1 / 200 :: rat) < 5 / 8 \<and> 0 < two_decimals (5 / 8)"
  using monitor_silent_on_zero
    [of "[Absent, Tree [Vanished, Size 0]]" "expected_size_bytes ''dev''" "1 / 4" "''dev''"
        "[[Tree [Size 0]], [Absent, Tree [Size 2818572288]], [Tree [Size 2818572288]],
          [Tree [Stat_fails (Exn ''gone'')]], [Tree [Size 5000000000], Absent]]" "1 / 400"]
    monitor_silent_on_zero
    [of "[]" 0 0 "''dev''" "[[Absent, Tree [Vanished, Size 0]], [Tree [Stat_fails (Exn ''gone'')]]]"
        "5 / 8"]
    monitor_silent_on_zero
    [of "[]" 0 0 "''dev''" "[[Absent, Tree [Vanished, Size 0]]]" "5 / 8"]
  by (simp add: emitted_example monitor_actions_long_example continuation_long_example
        two_decimals_values)

text \<open>
  Claim C10 as stated fails for what is printed: with 2 bytes in the cache directories the
  monitor emits the event \<open>PROGRESS: 0.00\<close>, which reads as 0.
\<close>

theorem printed_zero_counterexample:
  "emitted (monitor_download_progress ''dev'' [[Tree [Size 2]]]) = [5 / 11274289152] \<and>
   monitor_actions ''dev'' [[Tree [Size 2]]] = [Print ''PROGRESS: 0.00'', Sleep 2] \<and>
   progress_readings (lines_of (monitor_actions ''dev'' [[Tree [Size 2]]])) = [0] \<and>
   \<not> (0 :: rat) < 0"
proof -
  have e: "emitted (monitor_download_progress ''dev'' [[Tree [Size 2]]]) = [5 / 11274289152]"
    by (simp add: monitor_download_progress_def monitor_iteration_def fraction_def dev_bytes
          Let_def)
  have r: "progress_readings (lines_of [Print ''PROGRESS: 0.00'', Sleep 2]) = [0]"
    by (simp add: lines_of_def split_lines_plain progress_readings_Cons progress_readings_Nil
          read_zero)
  from e r show ?thesis by (simp add: monitor_actions_one_sample)
qed

subsection \<open>The paths of the supervisor\<close>

text \<open>
  Claim C2, as amended. If the spawned subprocess is found exited with return code 0, every
  earlier poll having found it running within the ceiling, the supervisor returns \<open>True\<close>
  (Success), and the last line it prints is \<open>DOWNLOAD_COMPLETE\<close>, immediately preceded by the
  literal line \<open>PROGRESS: 1.0\<close> (one decimal, not two).
\<close>

theorem exit_zero_success:
  assumes "spawned model_name w"
    and "observations w = pre @ Exited 0 # rest"
    and "list_all (within_ceiling (start_time w)) pre"
  shows "download_model_robust model_name w =
           Some (True, actions_to_spawn model_name w @ replicate (length pre) (Sleep 5) @
                       [Print ''PROGRESS: 1.0'', Print ''DOWNLOAD_COMPLETE''])"
  using assms by (simp add: download_model_robust_def body_spawned wait_exited)

theorem exit_zero_success_witness:
  "spawned ''dev'' (example_world [Running 1005, Exited 0]) \<and>
   observations (example_world [Running 1005, Exited 0]) = [Running 1005] @ Exited 0 # [] \<and>
   list_all (within_ceiling (start_time (example_world [Running 1005, Exited 0]))) [Running 1005] \<and>
   download_model_robust ''dev'' (example_world [Running 1005, Exited 0]) =
     Some (True, actions_to_spawn ''dev'' (example_world [Running 1005, Exited 0]) @
                 [Sleep 5, Print ''PROGRESS: 1.0'', Print ''DOWNLOAD_COMPLETE''])"
  using exit_zero_success
    [of "''dev''" "example_world [Running 1005, Exited 0]" "[Running 1005]" "[]"]
  by (simp add: spawned_example example_world_simps timeout_def)

text \<open>
  Claim C2 as the specification states it fails: in a run whose first poll finds return code
  0, the line before \<open>DOWNLOAD_COMPLETE\<close> is \<open>PROGRESS: 1.0\<close>, and no line
  \<open>PROGRESS: 1.00\<close> is printed at all.
\<close>

theorem progress_two_decimals_counterexample:
  "download_model_robust ''dev'' (example_world [Exited 0]) =
     Some (True, actions_to_spawn ''dev'' (example_world [Exited 0]) @
                 [Print ''PROGRESS: 1.0'', Print ''DOWNLOAD_COMPLETE'']) \<and>
   last (printed (actions_to_spawn ''dev'' (example_world [Exited 0]) @
                  [Print ''PROGRESS: 1.0'', Print ''DOWNLOAD_COMPLETE''])) = ''DOWNLOAD_COMPLETE'' \<and>
   last (butlast (printed (actions_to_spawn ''dev'' (example_world [Exited 0]) @
                  [Print ''PROGRESS: 1.0'', Print ''DOWNLOAD_COMPLETE'']))) = ''PROGRESS: 1.0'' \<and>
   ''PROGRESS: 1.0'' \<noteq> ''PROGRESS: 1.00'' \<and>
   ''PROGRESS: 1.00'' \<notin> set (printed (actions_to_spawn ''dev'' (example_world [Exited 0]) @
                  [Print ''PROGRESS: 1.0'', Print ''DOWNLOAD_COMPLETE'']))"
  using download_exit_zero_example
  by (simp add: printed_append printed_to_spawn printed_to_thread printed_to_mkdir butlast_append)

lemma no_terminate_to_spawn: "Terminate \<notin> set (actions_to_spawn m w)"
  by (simp add: actions_to_spawn_def actions_to_thread_def actions_to_mkdir_def)

lemma no_sleep_to_spawn: "count_list (actions_to_spawn m w) (Sleep 5) = 0"
  by (simp add: actions_to_spawn_def actions_to_thread_def actions_to_mkdir_def)

lemma count_sleeps: "count_list (replicate n (Sleep 5)) (Sleep 5) = n"
  by (induction n) auto

lemma no_terminate_sleeps: "Terminate \<notin> set (replicate n (Sleep 5))"
  by simp

lemma show_int_minus_nine: "show_int (- 9) = ''-9''"
  by (simp add: show_int_def show_nat.simps digit_char_def)

lemma show_int_137: "show_int 137 = ''137''"
  by (simp add: show_int_def show_nat.simps digit_char_def)

text \<open>
  Claim C3, as amended. Elapsed time and liveness are checked at the polls only. At the first
  poll that finds the subprocess still running with the clock, read right after that poll,
  more than 7200 seconds past the start, the supervisor prints the \<open>DOWNLOAD_ERROR\<close> token of
  the timeout, requests termination of the subprocess and returns \<open>False\<close>; \<open>main\<close> exits
  with code 1. Before that it has slept 5 seconds once per earlier poll. A subprocess that a
  poll finds exited gives the outcome of its return code, with no termination request,
  whatever the clock reads by then.
\<close>

theorem timeout_terminates:
  assumes "spawned model_name w"
    and "list_all (within_ceiling (start_time w)) pre"
  shows "(observations w = pre @ Running now # rest \<and> 7200 < now - start_time w \<longrightarrow>
          download_model_robust model_name w =
           Some (False, actions_to_spawn model_name w @ replicate (length pre) (Sleep 5) @
                        [Print ''DOWNLOAD_ERROR: Download timed out after 2 hours'', Terminate] @
                        (case terminate_raises w of
                           None \<Rightarrow> []
                         | Some e \<Rightarrow> [Print (''DOWNLOAD_ERROR: '' @ str e)])) \<and>
          main [script, model_name] w =
           Some (1, actions_to_spawn model_name w @ replicate (length pre) (Sleep 5) @
                    [Print ''DOWNLOAD_ERROR: Download timed out after 2 hours'', Terminate] @
                    (case terminate_raises w of
                       None \<Rightarrow> []
                     | Some e \<Rightarrow> [Print (''DOWNLOAD_ERROR: '' @ str e)]))) \<and>
         (observations w = pre @ Exited returncode # rest \<longrightarrow>
          (\<exists>out. download_model_robust model_name w = Some (returncode = 0, out) \<and>
                 Terminate \<notin> set out \<and> count_list out (Sleep 5) = length pre))"
proof (intro conjI impI)
  assume a: "observations w = pre @ Running now # rest \<and> 7200 < now - start_time w"
  then have "timeout < now - start_time w" by (simp add: timeout_def)
  with a assms(2) have
    "wait_for_process (start_time w) (observations w) =
       Some (replicate (length pre) (Sleep 5), Timed_out)"
    by (simp add: wait_timed_out)
  with assms(1) show "download_model_robust model_name w =
           Some (False, actions_to_spawn model_name w @ replicate (length pre) (Sleep 5) @
                        [Print ''DOWNLOAD_ERROR: Download timed out after 2 hours'', Terminate] @
                        (case terminate_raises w of
                           None \<Rightarrow> []
                         | Some e \<Rightarrow> [Print (''DOWNLOAD_ERROR: '' @ str e)]))"
    by (simp add: download_model_robust_def body_spawned split: option.splits)
  then show "main [script, model_name] w =
           Some (1, actions_to_spawn model_name w @ replicate (length pre) (Sleep 5) @
                    [Print ''DOWNLOAD_ERROR: Download timed out after 2 hours'', Terminate] @
                    (case terminate_raises w of
                       None \<Rightarrow> []
                     | Some e \<Rightarrow> [Print (''DOWNLOAD_ERROR: '' @ str e)]))"
    by (simp add: main_def)
next
  assume "observations w = pre @ Exited returncode # rest"
  with assms(2) have wt:
    "wait_for_process (start_time w) (observations w) =
       Some (replicate (length pre) (Sleep 5), Returned returncode)"
    by (simp add: wait_exited)
  show "\<exists>out. download_model_robust model_name w = Some (returncode = 0, out) \<and>
                 Terminate \<notin> set out \<and> count_list out (Sleep 5) = length pre"
  proof (cases "returncode = 0")
    case True
    with wt assms(1) show ?thesis
      by (simp add: download_model_robust_def body_spawned no_terminate_to_spawn
            no_sleep_to_spawn count_sleeps)
  next
    case False
    with wt assms(1) show ?thesis
      by (cases "communicate_result w")
         (auto simp: download_model_robust_def body_spawned no_terminate_to_spawn
            no_sleep_to_spawn count_sleeps)
  qed
qed

theorem timeout_terminates_witness:
  "spawned ''dev'' (example_world [Running 8200, Running 8205]) \<and>
   list_all (within_ceiling (start_time (example_world [Running 8200, Running 8205]))) [Running 8200] \<and>
   observations (example_world [Running 8200, Running 8205]) = [Running 8200] @ Running 8205 # [] \<and>
   (7200 :: rat) < 8205 - start_time (example_world [Running 8200, Running 8205]) \<and>
   main [''robust_download.py'', ''dev''] (example_world [Running 8200, Running 8205]) =
     Some (1, actions_to_spawn ''dev'' (example_world [Running 8200, Running 8205]) @
              [Sleep 5, Print ''DOWNLOAD_ERROR: Download timed out after 2 hours'', Terminate]) \<and>
   spawned ''dev'' (example_world [Running 8200, Exited 1]) \<and>
   list_all (within_ceiling (start_time (example_world [Running 8200, Exited 1]))) [Running 8200] \<and>
   observations (example_world [Running 8200, Exited 1]) = [Running 8200] @ Exited 1 # [] \<and>
   download_model_robust ''dev'' (example_world [Running 8200, Exited 1]) =
     Some (False, actions_to_spawn ''dev'' (example_world [Running 8200, Exited 1]) @
                  [Sleep 5, Communicate,
                   Print ''DOWNLOAD_ERROR: Download failed with return code 1'',
                   Print ''STDOUT: partial'',
                   Print ''STDERR: connection reset''])"
proof -
  have d: "download_model_robust ''dev'' (example_world [Running 8200, Exited 1]) =
     Some (False, actions_to_spawn ''dev'' (example_world [Running 8200, Exited 1]) @
                  [Sleep 5, Communicate,
                   Print ''DOWNLOAD_ERROR: Download failed with return code 1'',
                   Print ''STDOUT: partial'',
                   Print ''STDERR: connection reset''])"
    by (simp add: download_model_robust_def body_spawned spawned_example example_world_simps
          show_int_1 timeout_def)
  from d timeout_terminates
    [of "''dev''" "example_world [Running 8200, Running 8205]" "[Running 8200]" 8205 "[]"
        "''robust_download.py''" 0]
    timeout_terminates
    [of "''dev''" "example_world [Running 8200, Exited 1]" "[Running 8200]" 0 "[]"
        "''robust_download.py''" 1]
  show ?thesis
    by (simp add: spawned_example example_world_simps timeout_def)
qed

text \<open>
  Claim C3 as stated fails between two polls: a poll at exactly 7200 seconds finds the
  subprocess running, the supervisor sleeps 5 seconds across the ceiling, and the next poll
  finds return code 0: the run is a success and no termination is requested, although
  the ceiling passed while the supervisor slept.
\<close>

theorem sleeps_past_ceiling_counterexample:
  "start_time (example_world [Running 8200, Exited 0]) = 1000 \<and>
   observations (example_world [Running 8200, Exited 0]) = [Running 8200, Exited 0] \<and>
   (8200 :: rat) - 1000 = 7200 \<and>
   download_model_robust ''dev'' (example_world [Running 8200, Exited 0]) =
     Some (True, actions_to_spawn ''dev'' (example_world [Running 8200, Exited 0]) @
                 [Sleep 5, Print ''PROGRESS: 1.0'', Print ''DOWNLOAD_COMPLETE'']) \<and>
   Terminate \<notin> set (actions_to_spawn ''dev'' (example_world [Running 8200, Exited 0]) @
                 [Sleep 5, Print ''PROGRESS: 1.0'', Print ''DOWNLOAD_COMPLETE''])"
  by (simp add: download_model_robust_def body_spawned spawned_example example_world_simps
        timeout_def no_terminate_to_spawn)

text \<open>
  Claim C4, as amended. If the spawned subprocess is found exited with a nonzero return code
  before the timeout, the supervisor calls \<open>communicate()\<close>. When that returns the captured
  streams, it prints the \<open>DOWNLOAD_ERROR\<close> line ending in the decimal return code (which
  reads back as that code), then the captured standard output and standard error in a
  \<open>STDOUT:\<close> and a \<open>STDERR:\<close> print, and returns \<open>False\<close>. When \<open>communicate()\<close> raises,
  it returns \<open>False\<close> with the line \<open>DOWNLOAD_ERROR: <message>\<close> of that exception and prints
  neither the return code nor the streams.
\<close>

theorem nonzero_exit_failure:
  assumes "spawned model_name w"
    and "observations w = pre @ Exited returncode # rest"
    and "list_all (within_ceiling (start_time w)) pre"
    and "returncode \<noteq> 0"
  shows "(communicate_result w = Inr (stdout, stderr) \<longrightarrow>
          download_model_robust model_name w =
           Some (False, actions_to_spawn model_name w @ replicate (length pre) (Sleep 5) @
                        [Communicate,
                         Print (''DOWNLOAD_ERROR: Download failed with return code '' @
                                show_int returncode),
                         Print (''STDOUT: '' @ stdout),
                         Print (''STDERR: '' @ stderr)])) \<and>
         (communicate_result w = Inl e \<longrightarrow>
          download_model_robust model_name w =
           Some (False, actions_to_spawn model_name w @ replicate (length pre) (Sleep 5) @
                        [Communicate, Print (''DOWNLOAD_ERROR: '' @ str e)])) \<and>
         read_int (drop (length ''DOWNLOAD_ERROR: Download failed with return code '')
                     (''DOWNLOAD_ERROR: Download failed with return code '' @
                      show_int returncode)) = Some returncode"
  using assms
  by (simp add: download_model_robust_def body_spawned wait_exited read_int_show_int)

theorem nonzero_exit_failure_witness:
  "spawned ''dev'' (example_world [Exited 137]) \<and>
   observations (example_world [Exited 137]) = [] @ Exited 137 # [] \<and>
   list_all (within_ceiling (start_time (example_world [Exited 137]))) [] \<and>
   (137 :: int) \<noteq> 0 \<and>
   communicate_result (example_world [Exited 137]) = Inr (''partial'', ''connection reset'') \<and>
   download_model_robust ''dev'' (example_world [Exited 137]) =
     Some (False, actions_to_spawn ''dev'' (example_world [Exited 137]) @
                  [Communicate,
                   Print ''DOWNLOAD_ERROR: Download failed with return code 137'',
                   Print ''STDOUT: partial'',
                   Print ''STDERR: connection reset'']) \<and>
   read_int ''137'' = Some 137 \<and>
   spawned ''dev'' (example_world [Running 1005, Exited (- 9)]
      \<lparr>communicate_result := Inl (Exn ''I/O operation on closed file'')\<rparr>) \<and>
   observations (example_world [Running 1005, Exited (- 9)]
      \<lparr>communicate_result := Inl (Exn ''I/O operation on closed file'')\<rparr>) =
     [Running 1005] @ Exited (- 9) # [] \<and>
   list_all (within_ceiling (start_time (example_world [Running 1005, Exited (- 9)]
      \<lparr>communicate_result := Inl (Exn ''I/O operation on closed file'')\<rparr>))) [Running 1005] \<and>
   (- 9 :: int) \<noteq> 0 \<and>
   communicate_result (example_world [Running 1005, Exited (- 9)]
      \<lparr>communicate_result := Inl (Exn ''I/O operation on closed file'')\<rparr>) =
     Inl (Exn ''I/O operation on closed file'') \<and>
   download_model_robust ''dev'' (example_world [Running 1005, Exited (- 9)]
      \<lparr>communicate_result := Inl (Exn ''I/O operation on closed file'')\<rparr>) =
     Some (False, actions_to_spawn ''dev'' (example_world [Running 1005, Exited (- 9)]
                    \<lparr>communicate_result := Inl (Exn ''I/O operation on closed file'')\<rparr>) @
                  [Sleep 5, Communicate,
                   Print ''DOWNLOAD_ERROR: I/O operation on closed file'']) \<and>
   read_int ''-9'' = Some (- 9)"
proof -
  let ?w = "example_world [Running 1005, Exited (- 9)]
      \<lparr>communicate_result := Inl (Exn ''I/O operation on closed file'')\<rparr>"
  have sp: "spawned ''dev'' ?w"
    by (simp add: spawned_def example_world_simps model_mapping_def)
  from sp nonzero_exit_failure
    [of "''dev''" "example_world [Exited 137]" "[]" 137 "[]" "''partial''" "''connection reset''"
        "Exn ''none''"]
    nonzero_exit_failure
    [of "''dev''" ?w "[Running 1005]" "- 9" "[]" "[]" "[]"
        "Exn ''I/O operation on closed file''"]
  show ?thesis
    by (simp add: spawned_example example_world_simps show_int_137 show_int_minus_nine
          timeout_def)
qed

text \<open>
  Claim C4 as stated fails when \<open>communicate()\<close> raises: the only failure line carries the
  message of the exception, and neither the return code nor a captured stream is printed.
\<close>

theorem communicate_raises_counterexample:
  "download_model_robust ''dev''
     (example_world [Exited 1]\<lparr>communicate_result := Inl (Exn ''I/O operation on closed file'')\<rparr>) =
     Some (False,
       actions_to_spawn ''dev''
         (example_world [Exited 1]\<lparr>communicate_result := Inl (Exn ''I/O operation on closed file'')\<rparr>) @
       [Communicate, Print ''DOWNLOAD_ERROR: I/O operation on closed file'']) \<and>
   printed (actions_to_spawn ''dev''
         (example_world [Exited 1]\<lparr>communicate_result := Inl (Exn ''I/O operation on closed file'')\<rparr>) @
       [Communicate, Print ''DOWNLOAD_ERROR: I/O operation on closed file'']) =
     [''DOWNLOAD_START'', ''Downloading model: dev'', ''PROGRESS: 0.05'',
      ''Starting robust download with huggingface-cli...'', ''PROGRESS: 0.1'',
      ''Initializing download...'', ''PROGRESS: 0.2'', ''Executing download command...'',
      ''Command: huggingface-cli download black-forest-labs/FLUX.1-dev --local-dir /Users/me/.cache/mflux/dev --local-dir-use-symlinks False --resume-download --quiet'',
      ''DOWNLOAD_ERROR: I/O operation on closed file'']"
proof -
  let ?w = "example_world [Exited 1]\<lparr>communicate_result := Inl (Exn ''I/O operation on closed file'')\<rparr>"
  have sp: "spawned ''dev'' ?w"
    by (simp add: spawned_def example_world_simps model_mapping_def)
  have d: "download_model_robust ''dev'' ?w =
     Some (False, actions_to_spawn ''dev'' ?w @
       [Communicate, Print ''DOWNLOAD_ERROR: I/O operation on closed file''])"
    by (simp add: download_model_robust_def body_spawned [OF sp] example_world_simps)
  have p: "printed (actions_to_spawn ''dev'' ?w @
       [Communicate, Print ''DOWNLOAD_ERROR: I/O operation on closed file'']) =
     [''DOWNLOAD_START'', ''Downloading model: dev'', ''PROGRESS: 0.05'',
      ''Starting robust download with huggingface-cli...'', ''PROGRESS: 0.1'',
      ''Initializing download...'', ''PROGRESS: 0.2'', ''Executing download command...'',
      ''Command: huggingface-cli download black-forest-labs/FLUX.1-dev --local-dir /Users/me/.cache/mflux/dev --local-dir-use-symlinks False --resume-download --quiet'',
      ''DOWNLOAD_ERROR: I/O operation on closed file'']"
    by (simp add: printed_append printed_to_spawn printed_to_thread printed_to_mkdir
          cmd_of_def cache_dir_of_def path_join_def model_mapping_def example_world_simps)
  from d p show ?thesis by blast
qed

text \<open>
  Claim C6, as amended. For a model identifier other than \<open>schnell\<close> and \<open>dev\<close> the
  supervisor returns \<open>False\<close> whatever the world answers, spawns no subprocess and does not
  start the monitor thread. The failure is not immediate: the start lines are printed and the
  cache directory is created first. When the directory could be created the failure is the line
  \<open>DOWNLOAD_ERROR: Unknown model <name>\<close>; when its creation raises, the failure is the line
  \<open>DOWNLOAD_ERROR: <message>\<close> of that exception.
\<close>

theorem unknown_model_fails_fast:
  assumes "model_name \<notin> {''schnell'', ''dev''}"
  shows "(mkdir_raises w = None \<longrightarrow>
          download_model_robust model_name w =
            Some (False, [Print ''DOWNLOAD_START'',
                          Print (''Downloading model: '' @ model_name),
                          Mkdir (cache_dir_of w),
                          Print (''DOWNLOAD_ERROR: Unknown model '' @ model_name)])) \<and>
         (mkdir_raises w = Some e \<longrightarrow>
          download_model_robust model_name w =
            Some (False, [Print ''DOWNLOAD_START'',
                          Print (''Downloading model: '' @ model_name),
                          Mkdir (cache_dir_of w),
                          Print (''DOWNLOAD_ERROR: '' @ str e)])) \<and>
         (\<exists>acts. download_model_robust model_name w = Some (False, acts) \<and>
            \<not> list_ex is_spawn acts \<and> \<not> list_ex is_start_monitor acts)"
proof (cases "mkdir_raises w")
  case None
  with assms show ?thesis
    by (simp add: download_model_robust_def body_unknown model_mapping_known actions_to_mkdir_def)
next
  case (Some e')
  then show ?thesis
    by (simp add: download_model_robust_def body_mkdir_raises actions_to_mkdir_def)
qed

theorem unknown_model_fails_fast_witness:
  "''flux-pro'' \<notin> {''schnell'', ''dev''} \<and>
   mkdir_raises (example_world []) = None \<and>
   download_model_robust ''flux-pro'' (example_world []) =
     Some (False, [Print ''DOWNLOAD_START'',
                   Print ''Downloading model: flux-pro'',
                   Mkdir ''/Users/me/.cache/mflux'',
                   Print ''DOWNLOAD_ERROR: Unknown model flux-pro'']) \<and>
   mkdir_raises (example_world []\<lparr>mkdir_raises := Some (Exn ''[Errno 13] Permission denied: /Users/me/.cache'')\<rparr>) =
     Some (Exn ''[Errno 13] Permission denied: /Users/me/.cache'') \<and>
   download_model_robust ''flux-pro''
     (example_world []\<lparr>mkdir_raises := Some (Exn ''[Errno 13] Permission denied: /Users/me/.cache'')\<rparr>) =
     Some (False, [Print ''DOWNLOAD_START'',
                   Print ''Downloading model: flux-pro'',
                   Mkdir ''/Users/me/.cache/mflux'',
                   Print ''DOWNLOAD_ERROR: [Errno 13] Permission denied: /Users/me/.cache''])"
  using unknown_model_fails_fast [of "''flux-pro''" "example_world []" "Exn ''none''"]
    unknown_model_fails_fast [of "''flux-pro''"
      "example_world []\<lparr>mkdir_raises := Some (Exn ''[Errno 13] Permission denied: /Users/me/.cache'')\<rparr>"
      "Exn ''[Errno 13] Permission denied: /Users/me/.cache''"]
  by (simp add: example_world_simps cache_dir_of_def path_join_def)

text \<open>
  Claim C6 as stated fails when the cache directory cannot be created: the directory creation
  comes before the lookup, and the run ends with the message of its exception, with no
  \<open>Unknown model\<close> line.
\<close>

theorem unknown_model_after_mkdir_counterexample:
  "download_model_robust ''flux-pro''
     (example_world []\<lparr>mkdir_raises := Some (Exn ''[Errno 13] Permission denied: /Users/me/.cache'')\<rparr>) =
     Some (False, [Print ''DOWNLOAD_START'',
                   Print ''Downloading model: flux-pro'',
                   Mkdir ''/Users/me/.cache/mflux'',
                   Print ''DOWNLOAD_ERROR: [Errno 13] Permission denied: /Users/me/.cache'']) \<and>
   ''DOWNLOAD_ERROR: Unknown model flux-pro'' \<notin>
     set (printed [Print ''DOWNLOAD_START'',
                   Print ''Downloading model: flux-pro'',
                   Mkdir ''/Users/me/.cache/mflux'',
                   Print ''DOWNLOAD_ERROR: [Errno 13] Permission denied: /Users/me/.cache''])"
  by (simp add: download_model_robust_def body_mkdir_raises actions_to_mkdir_def
        example_world_simps cache_dir_of_def path_join_def)

text \<open>
  Claim C7. With an argument vector of any length other than two (script name and one
  positional argument) \<open>main\<close> prints the usage line, exits with code 1 and spawns nothing;
  with exactly one positional argument the exit code is 0 when the supervisor returns \<open>True\<close>
  and 1 when it returns \<open>False\<close> (failure or timeout).
\<close>

theorem main_arity_and_exit_code:
  "(length argv \<noteq> 2 \<longrightarrow>
      (\<exists>acts. main argv w = Some (1, acts) \<and>
         printed acts = [''Usage: python robust_download.py <model_name>''] \<and>
         \<not> list_ex is_spawn acts)) \<and>
   (download_model_robust model_name w = Some (True, out) \<longrightarrow>
      main [script, model_name] w = Some (0, out)) \<and>
   (download_model_robust model_name w = Some (False, out) \<longrightarrow>
      main [script, model_name] w = Some (1, out))"
  by (simp add: main_def)

theorem main_arity_and_exit_code_witness:
  "length [''robust_download.py''] \<noteq> 2 \<and>
   main [''robust_download.py''] (example_world []) =
     Some (1, [Print ''Usage: python robust_download.py <model_name>'']) \<and>
   length [''robust_download.py'', ''dev'', ''schnell''] \<noteq> 2 \<and>
   main [''robust_download.py'', ''dev'', ''schnell''] (example_world []) =
     Some (1, [Print ''Usage: python robust_download.py <model_name>'']) \<and>
   download_model_robust ''dev'' (example_world [Exited 0]) =
     Some (True, actions_to_spawn ''dev'' (example_world [Exited 0]) @
                 [Print ''PROGRESS: 1.0'', Print ''DOWNLOAD_COMPLETE'']) \<and>
   main [''robust_download.py'', ''dev''] (example_world [Exited 0]) =
     Some (0, actions_to_spawn ''dev'' (example_world [Exited 0]) @
                 [Print ''PROGRESS: 1.0'', Print ''DOWNLOAD_COMPLETE'']) \<and>
   download_model_robust ''dev'' (example_world [Exited 1]) =
     Some (False, actions_to_spawn ''dev'' (example_world [Exited 1]) @
                  [Communicate,
                   Print ''DOWNLOAD_ERROR: Download failed with return code 1'',
                   Print ''STDOUT: partial'',
                   Print ''STDERR: connection reset'']) \<and>
   main [''robust_download.py'', ''dev''] (example_world [Exited 1]) =
     Some (1, actions_to_spawn ''dev'' (example_world [Exited 1]) @
                  [Communicate,
                   Print ''DOWNLOAD_ERROR: Download failed with return code 1'',
                   Print ''STDOUT: partial'',
                   Print ''STDERR: connection reset''])"
  using download_exit_zero_example download_exit_one_example
    main_arity_and_exit_code [of "[''robust_download.py'']" "example_world []"]
    main_arity_and_exit_code
      [of "[''robust_download.py'', ''dev'', ''schnell'']" "example_world [Exited 0]" "''dev''"
          "actions_to_spawn ''dev'' (example_world [Exited 0]) @
             [Print ''PROGRESS: 1.0'', Print ''DOWNLOAD_COMPLETE'']"
          "''robust_download.py''"]
    main_arity_and_exit_code
      [of "[]" "example_world [Exited 1]" "''dev''"
          "actions_to_spawn ''dev'' (example_world [Exited 1]) @
             [Communicate,
              Print ''DOWNLOAD_ERROR: Download failed with return code 1'',
              Print ''STDOUT: partial'',
              Print ''STDERR: connection reset'']"
          "''robust_download.py''"]
  by (simp add: main_def)

subsection \<open>The lines of a run of the supervisor\<close>


lemma first_lines_to_mkdir:
  "first_lines (actions_to_mkdir m w) =
     [''DOWNLOAD_START'', ''Downloading model: '' @ hd (split_lines m)]"
  by (simp add: first_lines_def printed_to_mkdir hd_split_lines_Cons)

lemma first_lines_to_thread:
  "first_lines (actions_to_thread m w) =
     first_lines (actions_to_mkdir m w) @
     [''PROGRESS: 0.05'', ''Starting robust download with huggingface-cli...'']"
  by (simp add: first_lines_def printed_to_thread hd_split_lines_Cons)

lemma first_lines_to_spawn:
  "first_lines (actions_to_spawn m w) =
     first_lines (actions_to_thread m w) @
     [''PROGRESS: 0.1'', ''Initializing download...'', ''PROGRESS: 0.2'',
      ''Executing download command...'',
      ''Command: '' @ hd (split_lines (join '' '' (cmd_of w m (the (model_mapping m)))))]"
  by (simp add: first_lines_def printed_to_spawn hd_split_lines_Cons)

lemma first_readings_to_mkdir: "progress_readings (first_lines (actions_to_mkdir m w)) = []"
  by (simp add: first_lines_to_mkdir progress_readings_Cons progress_readings_Nil
        read_progress_other)

lemma first_readings_to_thread:
  "progress_readings (first_lines (actions_to_thread m w)) = [1 / 20]"
  by (simp add: first_lines_to_thread progress_readings_append first_readings_to_mkdir
        progress_readings_Cons progress_readings_Nil read_progress_other read_progress_literals)

lemma first_readings_to_spawn:
  "progress_readings (first_lines (actions_to_spawn m w)) = [1 / 20, 1 / 10, 1 / 5]"
  by (simp add: first_lines_to_spawn progress_readings_append first_readings_to_thread
        progress_readings_Cons progress_readings_Nil read_progress_other read_progress_literals)






lemma show_nat_plain: "CHR 0x0A \<notin> set (show_nat n)"
proof (induction n rule: show_nat.induct)
  case (1 n)
  have nl: "k < 10 \<Longrightarrow> digit_char k \<noteq> CHR 0x0A" for k
  proof -
    assume "k < 10"
    then have "k \<in> {0, 1, 2, 3, 4, 5, 6, 7, 8, 9}" by auto
    then show ?thesis by (auto simp: digit_char_def)
  qed
  show ?case
  proof (cases "n < 10")
    case True
    with nl [of n] show ?thesis by (simp add: show_nat.simps [of n])
  next
    case False
    with 1 nl [of "n mod 10"] show ?thesis by (simp add: show_nat.simps [of n])
  qed
qed

lemma show_int_plain: "CHR 0x0A \<notin> set (show_int i)"
  by (simp add: show_int_def show_nat_plain)

lemma lines_of_last_plain:
  "CHR 0x0A \<notin> set p \<Longrightarrow> lines_of (acts @ [Print p]) = lines_of acts @ [p]"
  by (simp add: lines_of_append) (simp add: lines_of_def split_lines_plain)

lemma first_lines_Print: "first_lines [Print p] = [hd (split_lines p)]"
  by (simp add: first_lines_def)

lemma first_lines_other:
  "first_lines [Terminate] = []" "first_lines [Communicate] = []"
  by (simp_all add: first_lines_def)









subsection \<open>Exceptions and terminal tokens\<close>




end
